theory Spec2Isabelle
  imports Main "HOL-Library.AList"
begin

section \<open>Boot-environment rendering and lifecycle (bootenv.go)\<close>

text \<open>
  A shallow embedding of \<^verbatim>\<open>src/bootenv.go\<close>. Go structs are records, the \<^verbatim>\<open>error\<close>
  results are values of the datatype \<open>error\<close> (\<open>None\<close> is Go's \<^verbatim>\<open>nil\<close>), the
  filesystem is an explicit association list that every operation takes and returns,
  and the collaborators that are not part of the file (the text/template engine, the
  template store, the machine store, HTTP, SHA-256 and the extraction script) are
  fields of a record \<open>ext\<close> that every operation receives. Pointers are taken to be
  non-nil: a \<^verbatim>\<open>BootEnv\<close> always has its \<^verbatim>\<open>OS\<close>.
\<close>

subsection \<open>Go's \<^verbatim>\<open>path\<close> package\<close>

text \<open>
  \<^verbatim>\<open>path.Clean\<close>, \<^verbatim>\<open>path.Join\<close> and \<^verbatim>\<open>path.Dir\<close> of the Go standard library, element by
  element (\<^verbatim>\<open>filepath.Join\<close> is the same function on a Unix system).
  \<^verbatim>\<open>Clean\<close> drops empty and \<^verbatim>\<open>.\<close> elements, lets a \<^verbatim>\<open>..\<close> element cancel the element
  before it, drops \<^verbatim>\<open>..\<close> at the start of a rooted path, keeps it at the start of a
  relative one, and returns \<^verbatim>\<open>.\<close> for an empty result.
\<close>

fun split_slash :: "string \<Rightarrow> string list" where
  "split_slash [] = [] # []"
| "split_slash (c # cs) =
     (if c = CHR ''/'' then [] # split_slash cs
      else (case split_slash cs of
              [] \<Rightarrow> [c] # []
            | e # es \<Rightarrow> (c # e) # es))"

fun join_slash :: "string list \<Rightarrow> string" where
  "join_slash [] = []"
| "join_slash [e] = e"
| "join_slash (e # es) = e @ ''/'' @ join_slash es"

definition clean_elem :: "bool \<Rightarrow> string list \<Rightarrow> string \<Rightarrow> string list" where
  "clean_elem rooted out e =
     (if e = [] \<or> e = ''.'' then out
      else if e = ''..'' then
        (if out \<noteq> [] \<and> last out \<noteq> ''..'' then butlast out
         else if rooted then out
         else out @ [''..''])
      else out @ [e])"

definition clean_elems :: "string \<Rightarrow> string list" where
  "clean_elems p = foldl (clean_elem (p \<noteq> [] \<and> hd p = CHR ''/'')) [] (split_slash p)"

definition path_Clean :: "string \<Rightarrow> string" where
  "path_Clean p =
     (if p = [] then ''.''
      else if hd p = CHR ''/'' then ''/'' @ join_slash (clean_elems p)
      else if clean_elems p = [] then ''.''
      else join_slash (clean_elems p))"

definition path_Join :: "string list \<Rightarrow> string" where
  "path_Join elem =
     (case dropWhile (\<lambda>e. e = []) elem of
        [] \<Rightarrow> []
      | e # es \<Rightarrow> path_Clean (join_slash (e # es)))"

definition path_Dir :: "string \<Rightarrow> string" where
  "path_Dir p = path_Clean (rev (dropWhile (\<lambda>c. c \<noteq> CHR ''/'') (rev p)))"

definition HasSuffix :: "string \<Rightarrow> string \<Rightarrow> bool" where
  "HasSuffix s suffix =
     (length suffix \<le> length s \<and> drop (length s - length suffix) s = suffix)"

text \<open>
  Predicates on paths, for the statements below: an element that \<^verbatim>\<open>Clean\<close> keeps as it
  is, a path made of such elements only, and the shape of a cleaned element list
  (\<^verbatim>\<open>..\<close> elements first, none at all in a rooted path).
\<close>

definition slashfree :: "string \<Rightarrow> bool" where
  "slashfree e = (CHR ''/'' \<notin> set e)"

definition normal :: "string \<Rightarrow> bool" where
  "normal e = (e \<noteq> [] \<and> e \<noteq> ''.'' \<and> e \<noteq> ''..'')"

definition plain :: "string \<Rightarrow> bool" where
  "plain p = list_all normal (split_slash p)"


subsection \<open>Data model\<close>

text \<open>
  The structs of \<^verbatim>\<open>bootenv.go\<close>, field by field; a field name carries the struct's
  prefix because several structs have a \<^verbatim>\<open>Name\<close>. A compiled \<^verbatim>\<open>*template.Template\<close> is
  the pair of its name and source text, \<open>None\<close> when the pointer is nil. \<^verbatim>\<open>Template\<close> and
  \<^verbatim>\<open>Machine\<close> are declared in other files of the package; they are given the fields
  that \<^verbatim>\<open>bootenv.go\<close> reads.
\<close>

type_synonym compiled = "string \<times> string"

record Template =
  tmpl_UUID :: string
  tmpl_Contents :: string

record TemplateInfo =
  ti_Name :: string
  ti_Path :: string
  ti_UUID :: string
  ti_pathTmpl :: "compiled option"
  ti_finalPath :: string
  ti_contents :: "Template option"

record FileData =
  fd_URL :: string
  fd_Name :: string
  fd_ValidationURL :: string
  fd_ValidationMethod :: string

record OsInfo =
  os_Name :: string
  os_Family :: string
  os_Codename :: string
  os_Version :: string
  os_IsoFile :: string
  os_IsoSha256 :: string
  os_IsoUrl :: string
  os_Files :: "FileData list"

record BootEnv =
  be_Name :: string
  be_OS :: OsInfo
  be_Templates :: "TemplateInfo list"
  be_Kernel :: string
  be_Initrds :: "string list"
  be_BootParams :: string
  be_RequiredParams :: "string list"
  be_bootParamsTmpl :: "compiled option"
  be_TenantId :: int

record Machine =
  m_Name :: string
  m_BootEnv :: string
  m_Params :: "string \<rightharpoonup> string"

record RenderData =
  rd_Machine :: Machine
  rd_Env :: BootEnv
  rd_ProvisionerURL :: string
  rd_CommandURL :: string
  rd_TenantId :: int

subsection \<open>Errors\<close>

text \<open>
  One constructor for each place where \<^verbatim>\<open>bootenv.go\<close> builds or passes on an error,
  carrying the arguments of the message. The message of each:
  \<^item> \<open>PathCompileError\<close>: "bootenv: Error compiling path template"
  \<^item> \<open>TemplateLoadError\<close>: "bootenv: Error loading template"
  \<^item> \<open>TemplateCompileError\<close>: "bootenv: Error compiling template"
  \<^item> \<open>BootParamsCompileError\<close>: "bootenv: Error compiling boot parameter template"
  \<^item> \<open>PathRenderError\<close>: "template: Error rendering path"
  \<^item> \<open>MissingRequiredParamsError\<close>: "bootenv: ... missing required machine params"
  \<^item> \<open>MkdirError\<close>: "template: Unable to create dir for"
  \<^item> \<open>CreateError\<close>: "template: Unable to create file"
  \<^item> \<open>ContentRenderError\<close>: "template: Error rendering template"
  \<^item> \<open>ChecksumMismatchError\<close>: "iso: Iso checksum bad.  Re-download image"
  \<^item> \<open>MediaExtractionError\<close>: the error of running \<^verbatim>\<open>/explode_iso.sh\<close>
  \<^item> \<open>FileMkdirError\<close>: "file: Unable to create dir for"
  \<^item> \<open>OsError\<close>: an error of \<^verbatim>\<open>os.Open\<close>, \<^verbatim>\<open>os.Create\<close> or a read, returned as it is
  \<^item> \<open>HttpError\<close>, \<open>CopyError\<close>: the error of \<^verbatim>\<open>http.Get\<close>, of \<^verbatim>\<open>io.Copy\<close>
  \<^item> \<open>FileMissingError\<close>: "validate: File doesn't exist"
  \<^item> \<open>IllegalTemplateError\<close>: "bootenv: Illegal template"
  \<^item> \<open>IncompleteBootSupportError\<close>: "bootenv: Missing elilo or pxelinux template"
  \<^item> \<open>MissingKernelError\<close>, \<open>InvalidKernelError\<close>: "missing kernel", "invalid kernel"
  \<^item> \<open>MissingInitrdError\<close>, \<open>InvalidInitrdError\<close>: "missing initrd", "invalid initrd"
  \<^item> \<open>ImmutableIdentityError\<close>: "Cannot change name of bootenv"
  \<^item> \<open>ListError\<close>: the error of \<^verbatim>\<open>machine.List\<close>
  \<^item> \<open>EnvironmentInUseError\<close>: "Bootenv ... in use by Machine ..."
  \<^item> \<open>Fatal\<close>: \<^verbatim>\<open>logger.Fatalf("Unknown protocol %v", proto)\<close>, which ends the process
  \<^item> \<open>Panic\<close>: a nil \<^verbatim>\<open>pathTmpl\<close> or \<^verbatim>\<open>contents\<close> is dereferenced
\<close>

datatype errno = ENOENT | ENOTDIR | EISDIR | ENOTEMPTY | EINVAL

datatype error =
    PathCompileError string string string
  | TemplateLoadError string string string
  | TemplateCompileError string string string
  | BootParamsCompileError string string
  | PathRenderError string string string
  | MissingRequiredParamsError string string "string list"
  | MkdirError string errno
  | CreateError string errno
  | ContentRenderError string string string
  | ChecksumMismatchError string string string
  | MediaExtractionError string
  | FileMkdirError string errno
  | OsError errno
  | HttpError string
  | CopyError string
  | FileMissingError string
  | IllegalTemplateError TemplateInfo
  | IncompleteBootSupportError
  | MissingKernelError string string string
  | InvalidKernelError string string string
  | MissingInitrdError string string string
  | InvalidInitrdError string string string
  | ImmutableIdentityError
  | ListError string
  | EnvironmentInUseError string string
  | Fatal string
  | Panic

subsection \<open>The filesystem\<close>

text \<open>
  A path names a directory or a regular file with its contents. Paths are compared as
  strings (there are no links), and an operation fails only for a reason the tree
  itself gives: a missing element, a file where a directory is needed, a directory
  where a file is needed.
\<close>

datatype node = Dir | File string

type_synonym filesystem = "(string \<times> node) list"

text \<open>
  The directories on the way to a path, the path itself last: \<^verbatim>\<open>/a/b\<close> gives
  \<^verbatim>\<open>/a\<close>, \<^verbatim>\<open>/a/b\<close>. The root and the working directory are always there; a \<^verbatim>\<open>..\<close> that
  \<^verbatim>\<open>Clean\<close> keeps at the start of a relative path is a name like any other.
\<close>

fun prefixes_from :: "string \<Rightarrow> string list \<Rightarrow> string list" where
  "prefixes_from cur [] = []"
| "prefixes_from cur (e # es) = (cur @ e) # prefixes_from (cur @ e @ ''/'') es"

definition path_prefixes :: "string \<Rightarrow> string list" where
  "path_prefixes p =
     prefixes_from (if p \<noteq> [] \<and> hd p = CHR ''/'' then ''/'' else []) (clean_elems p)"

text \<open>
  \<^verbatim>\<open>os.Stat\<close>: the node at the path, \<^verbatim>\<open>ENOENT\<close> where an element is missing, \<^verbatim>\<open>ENOTDIR\<close>
  where a file is on the way. \<open>dirs_on\<close> says that every element on the way is a
  directory.
\<close>

fun walk :: "filesystem \<Rightarrow> string list \<Rightarrow> errno + node" where
  "walk F [] = Inr Dir"
| "walk F [q] = (case map_of F q of None \<Rightarrow> Inl ENOENT | Some n \<Rightarrow> Inr n)"
| "walk F (q # r # qs) =
     (case map_of F q of
        None \<Rightarrow> Inl ENOENT
      | Some Dir \<Rightarrow> walk F (r # qs)
      | Some (File c) \<Rightarrow> Inl ENOTDIR)"

definition dirs_on :: "filesystem \<Rightarrow> string list \<Rightarrow> bool" where
  "dirs_on F qs = (\<forall>q \<in> set (butlast qs). map_of F q = Some Dir)"

definition os_Stat :: "filesystem \<Rightarrow> string \<Rightarrow> errno + node" where
  "os_Stat F p = (if p = [] then Inl ENOENT else walk F (path_prefixes p))"

text \<open>\<^verbatim>\<open>os.MkdirAll\<close>: the directories that are missing are made; a file on the way
  is an error.\<close>

fun mkdirs :: "filesystem \<Rightarrow> string list \<Rightarrow> errno + filesystem" where
  "mkdirs F [] = Inr F"
| "mkdirs F (q # qs) =
     (case map_of F q of
        None \<Rightarrow> mkdirs (AList.update q Dir F) qs
      | Some Dir \<Rightarrow> mkdirs F qs
      | Some (File c) \<Rightarrow> Inl ENOTDIR)"

definition os_MkdirAll :: "filesystem \<Rightarrow> string \<Rightarrow> errno + filesystem" where
  "os_MkdirAll F p = (if p = [] then Inl ENOENT else mkdirs F (path_prefixes p))"

text \<open>\<^verbatim>\<open>os.Create\<close>: the file is created, or truncated when it is there.\<close>

fun create_at :: "filesystem \<Rightarrow> string list \<Rightarrow> errno + filesystem" where
  "create_at F [] = Inl EISDIR"
| "create_at F [q] =
     (case map_of F q of
        Some Dir \<Rightarrow> Inl EISDIR
      | _ \<Rightarrow> Inr (AList.update q (File []) F))"
| "create_at F (q # r # qs) =
     (case map_of F q of
        None \<Rightarrow> Inl ENOENT
      | Some Dir \<Rightarrow> create_at F (r # qs)
      | Some (File c) \<Rightarrow> Inl ENOTDIR)"

definition os_Create :: "filesystem \<Rightarrow> string \<Rightarrow> errno + filesystem" where
  "os_Create F p = (if p = [] then Inl ENOENT else create_at F (path_prefixes p))"

text \<open>Writing \<open>data\<close> through the handle that \<^verbatim>\<open>os.Create\<close> returned for \<open>p\<close>.\<close>

definition file_Write :: "filesystem \<Rightarrow> string \<Rightarrow> string \<Rightarrow> filesystem" where
  "file_Write F p data =
     (case path_prefixes p of
        [] \<Rightarrow> F
      | q # qs \<Rightarrow> AList.update (last (q # qs)) (File data) F)"

text \<open>\<^verbatim>\<open>os.Remove\<close>: a file, or a directory that holds nothing.\<close>

definition has_children :: "filesystem \<Rightarrow> string \<Rightarrow> bool" where
  "has_children F d =
     list_ex (\<lambda>(q, n). butlast (path_prefixes q) \<noteq> [] \<and> last (butlast (path_prefixes q)) = d) F"

definition os_Remove :: "filesystem \<Rightarrow> string \<Rightarrow> errno + filesystem" where
  "os_Remove F p =
     (case os_Stat F p of
        Inl e \<Rightarrow> Inl e
      | Inr (File c) \<Rightarrow> Inr (AList.delete (last (path_prefixes p)) F)
      | Inr Dir \<Rightarrow>
          (if path_prefixes p = [] then Inl EINVAL
           else if has_children F (last (path_prefixes p)) then Inl ENOTEMPTY
           else Inr (AList.delete (last (path_prefixes p)) F)))"

text \<open>\<^verbatim>\<open>os.Remove(p)\<close> where the caller drops the error.\<close>

definition remove_ignore :: "filesystem \<Rightarrow> string \<Rightarrow> filesystem" where
  "remove_ignore F p = (case os_Remove F p of Inl e \<Rightarrow> F | Inr G \<Rightarrow> G)"


text \<open>
  The state that the operations change: the filesystem, and a log of the calls made to
  the collaborators, oldest first. The log is not in the Go code; it records where the
  code makes each call, so that what a run did and in which order can be stated.
\<close>

datatype event =
    PathRendered string string
  | ContentRendered string string
  | IsoHashed string
  | Extracted "string list"
  | Downloaded string

record world =
  fs :: filesystem
  trace :: "event list"

subsection \<open>Collaborators\<close>

text \<open>
  What \<^verbatim>\<open>bootenv.go\<close> takes from outside itself: the package variables \<^verbatim>\<open>fileRoot\<close>,
  \<^verbatim>\<open>provisionerURL\<close> and \<^verbatim>\<open>commandURL\<close>, and the behaviour of the calls it makes.
  \<^item> \<open>text_Parse name text\<close>: \<^verbatim>\<open>template.New(name).Parse(text)\<close>, \<open>Some\<close> the error
  \<^item> \<open>text_Execute t vars\<close>: \<^verbatim>\<open>t.Execute(buf, vars)\<close>, the output or \<open>Inl\<close> the error
  \<^item> \<open>backend_load uuid\<close>: \<^verbatim>\<open>backend.load(&Template{UUID: uuid})\<close>
  \<^item> \<open>Template_Parse t\<close>: \<^verbatim>\<open>t.Parse()\<close>, \<open>Some\<close> the error
  \<^item> \<open>Template_Render t vars\<close>: \<^verbatim>\<open>t.Render(dest, vars)\<close>, the bytes written to
    \<^verbatim>\<open>dest\<close> and \<open>Some\<close> the error when it fails after writing them
  \<^item> \<open>sha256_hex data\<close>: the hex SHA-256 of the bytes
  \<^item> \<open>explode_iso_sh args fs\<close>: \<^verbatim>\<open>/explode_iso.sh\<close>, the filesystem it leaves and
    \<open>Some\<close> the error
  \<^item> \<open>http_Get url\<close>: \<open>Inl\<close> the error of \<^verbatim>\<open>http.Get\<close>, or the bytes that
    \<^verbatim>\<open>io.Copy\<close> reads from the body and \<open>Some\<close> the error when the copy fails
  \<^item> \<open>Machine_List\<close>: \<^verbatim>\<open>machine.List()\<close>
\<close>

record ext =
  fileRoot :: string
  provisionerURL :: string
  commandURL :: string
  text_Parse :: "string \<Rightarrow> string \<Rightarrow> string option"
  text_Execute :: "compiled \<Rightarrow> RenderData \<Rightarrow> string + string"
  backend_load :: "string \<Rightarrow> string + Template"
  Template_Parse :: "Template \<Rightarrow> string option"
  Template_Render :: "Template \<Rightarrow> RenderData \<Rightarrow> string \<times> string option"
  sha256_hex :: "string \<Rightarrow> string"
  explode_iso_sh :: "string list \<Rightarrow> filesystem \<Rightarrow> filesystem \<times> string option"
  http_Get :: "string \<Rightarrow> string + string \<times> string option"
  Machine_List :: "string + Machine list"

subsection \<open>PathFor\<close>

definition PathFor :: "ext \<Rightarrow> BootEnv \<Rightarrow> string \<Rightarrow> string \<Rightarrow> error + string" where
  "PathFor x b proto f =
     (let res = os_Name (be_OS b);
          res = (if res \<noteq> ''discovery'' then path_Join [res, ''install''] else res)
      in if proto = ''disk'' then Inr (path_Join [fileRoot x, res, f])
         else if proto = ''tftp'' then Inr (path_Join [res, f])
         else if proto = ''http'' then Inr (provisionerURL x @ ''/'' @ path_Join [res, f])
         else Inl (Fatal proto))"

text \<open>The value of \<^verbatim>\<open>res\<close> when \<^verbatim>\<open>PathFor\<close> reaches its \<^verbatim>\<open>switch\<close>: the OS install segment.\<close>

definition install_segment :: "BootEnv \<Rightarrow> string" where
  "install_segment b =
     (if os_Name (be_OS b) \<noteq> ''discovery'' then path_Join [os_Name (be_OS b), ''install'']
      else os_Name (be_OS b))"

subsection \<open>Compiling the templates\<close>

text \<open>
  \<^verbatim>\<open>parseTemplates\<close>: \<open>parse_one\<close> is the body of its loop, \<open>parse_list\<close> the loop. The
  templates are changed in place, so the ones compiled before a failure stay compiled.
\<close>

definition parse_one :: "ext \<Rightarrow> TemplateInfo \<Rightarrow> error option \<times> TemplateInfo" where
  "parse_one x t =
     (case text_Parse x (ti_Name t) (ti_Path t) of
        Some err \<Rightarrow> (Some (PathCompileError (ti_Name t) (ti_Path t) err), t)
      | None \<Rightarrow>
          (let t1 = t\<lparr>ti_pathTmpl := Some (ti_Name t, ti_Path t)\<rparr>
           in case ti_contents t1 of
                Some c \<Rightarrow> (None, t1)
              | None \<Rightarrow>
                  (case backend_load x (ti_UUID t1) of
                     Inl err \<Rightarrow> (Some (TemplateLoadError (ti_UUID t1) (ti_Name t1) err), t1)
                   | Inr tmpl \<Rightarrow>
                       (case Template_Parse x tmpl of
                          Some err \<Rightarrow>
                            (Some (TemplateCompileError (ti_Name t1) err (tmpl_Contents tmpl)), t1)
                        | None \<Rightarrow> (None, t1\<lparr>ti_contents := Some tmpl\<rparr>)))))"

fun parse_list :: "ext \<Rightarrow> TemplateInfo list \<Rightarrow> error option \<times> TemplateInfo list" where
  "parse_list x [] = (None, [])"
| "parse_list x (t # ts) =
     (case parse_one x t of
        (Some e, t1) \<Rightarrow> (Some e, t1 # ts)
      | (None, t1) \<Rightarrow> (case parse_list x ts of (r, ts1) \<Rightarrow> (r, t1 # ts1)))"

definition parseTemplates :: "ext \<Rightarrow> BootEnv \<Rightarrow> error option \<times> BootEnv" where
  "parseTemplates x b =
     (case parse_list x (be_Templates b) of
        (Some e, ts) \<Rightarrow> (Some e, b\<lparr>be_Templates := ts\<rparr>)
      | (None, ts) \<Rightarrow>
          (let b1 = b\<lparr>be_Templates := ts\<rparr>
           in if be_BootParams b1 \<noteq> [] then
                (case text_Parse x ''machine'' (be_BootParams b1) of
                   Some err \<Rightarrow> (Some (BootParamsCompileError err (be_BootParams b1)), b1)
                 | None \<Rightarrow>
                     (None, b1\<lparr>be_bootParamsTmpl := Some (''machine'', be_BootParams b1)\<rparr>))
              else (None, b1)))"

subsection \<open>Rendering\<close>

definition mkRenderData :: "ext \<Rightarrow> Machine \<Rightarrow> BootEnv \<Rightarrow> RenderData" where
  "mkRenderData x m b =
     \<lparr>rd_Machine = m, rd_Env = b, rd_ProvisionerURL = provisionerURL x,
      rd_CommandURL = commandURL x, rd_TenantId = 0\<rparr>"

text \<open>
  \<^verbatim>\<open>RenderPaths\<close> stores each path in the template it belongs to, and the templates are
  reached from \<^verbatim>\<open>vars.Env\<close> too: the environment a template is executed with has the
  paths of the templates before it (\<open>done\<close>) already set.
\<close>

fun RenderPaths_loop ::
  "ext \<Rightarrow> Machine \<Rightarrow> BootEnv \<Rightarrow> TemplateInfo list \<Rightarrow> TemplateInfo list \<Rightarrow> world
   \<Rightarrow> error option \<times> BootEnv \<times> world" where
  "RenderPaths_loop x m b done [] w = (None, b\<lparr>be_Templates := done\<rparr>, w)"
| "RenderPaths_loop x m b done (t # ts) w =
     (let b1 = b\<lparr>be_Templates := done @ t # ts\<rparr>
      in case ti_pathTmpl t of
           None \<Rightarrow> (Some Panic, b1, w)
         | Some c \<Rightarrow>
             (let w1 = w\<lparr>trace := trace w @ [PathRendered (ti_Name t) (m_Name m)]\<rparr>
              in case text_Execute x c (mkRenderData x m b1) of
                   Inl err \<Rightarrow> (Some (PathRenderError (ti_Name t) (ti_Path t) err), b1, w1)
                 | Inr pathBuf \<Rightarrow>
                     RenderPaths_loop x m b
                       (done @ [t\<lparr>ti_finalPath := path_Join [fileRoot x, pathBuf]\<rparr>]) ts w1))"

definition RenderPaths ::
  "ext \<Rightarrow> BootEnv \<Rightarrow> Machine \<Rightarrow> world \<Rightarrow> error option \<times> BootEnv \<times> world" where
  "RenderPaths x b m w = RenderPaths_loop x m b [] (be_Templates b) w"

text \<open>
  \<^verbatim>\<open>RenderTemplates\<close>: the required parameters that the machine lacks, the loop that
  writes the files, and the function. \<^verbatim>\<open>Close\<close> and \<^verbatim>\<open>Sync\<close> change nothing that is
  modelled.
\<close>

definition missingParams :: "BootEnv \<Rightarrow> Machine \<Rightarrow> string list" where
  "missingParams b m = filter (\<lambda>param. m_Params m param = None) (be_RequiredParams b)"

fun render_loop ::
  "ext \<Rightarrow> Machine \<Rightarrow> BootEnv \<Rightarrow> TemplateInfo list \<Rightarrow> world \<Rightarrow> error option \<times> world" where
  "render_loop x m b [] w = (None, w)"
| "render_loop x m b (t # ts) w =
     (let tmplPath = ti_finalPath t
      in case os_MkdirAll (fs w) (path_Dir tmplPath) of
           Inl err \<Rightarrow> (Some (MkdirError tmplPath err), w)
         | Inr fs1 \<Rightarrow>
             (case os_Create fs1 tmplPath of
                Inl err \<Rightarrow> (Some (CreateError tmplPath err), w\<lparr>fs := fs1\<rparr>)
              | Inr fs2 \<Rightarrow>
                  (case ti_contents t of
                     None \<Rightarrow> (Some Panic, w\<lparr>fs := fs2\<rparr>)
                   | Some c \<Rightarrow>
                       (let tr = trace w @ [ContentRendered (ti_Name t) (m_Name m)]
                        in case Template_Render x c (mkRenderData x m b) of
                             (out, Some err) \<Rightarrow>
                               (Some (ContentRenderError (ti_Name t) err (tmpl_Contents c)),
                                w\<lparr>fs := remove_ignore (file_Write fs2 tmplPath out) tmplPath,
                                  trace := tr\<rparr>)
                           | (out, None) \<Rightarrow>
                               render_loop x m b ts
                                 (w\<lparr>fs := file_Write fs2 tmplPath out, trace := tr\<rparr>)))))"

definition RenderTemplates ::
  "ext \<Rightarrow> BootEnv \<Rightarrow> Machine \<Rightarrow> world \<Rightarrow> error option \<times> BootEnv \<times> world" where
  "RenderTemplates x b m w =
     (case parseTemplates x b of
        (Some e, b1) \<Rightarrow> (Some e, b1, w)
      | (None, b1) \<Rightarrow>
          (case RenderPaths x b1 m w of
             (Some e, b2, w1) \<Rightarrow> (Some e, b2, w1)
           | (None, b2, w1) \<Rightarrow>
               (if missingParams b2 m \<noteq> [] then
                  (Some (MissingRequiredParamsError (be_Name b2) (m_Name m) (missingParams b2 m)),
                   b2, w1)
                else (case render_loop x m b2 (be_Templates b2) w1 of
                        (r, w2) \<Rightarrow> (r, b2, w2)))))"

subsection \<open>Media preparation\<close>

text \<open>
  \<^verbatim>\<open>explode_iso\<close>. Opening the ISO fails where \<^verbatim>\<open>os.Stat\<close> failed for another reason than
  a missing file; reading a directory fails with \<^verbatim>\<open>EISDIR\<close>.
\<close>

definition iso_checksum :: "ext \<Rightarrow> BootEnv \<Rightarrow> string \<Rightarrow> world \<Rightarrow> error option \<times> world" where
  "iso_checksum x b isoPath w =
     (case os_Stat (fs w) isoPath of
        Inl e \<Rightarrow> (Some (OsError e), w)
      | Inr Dir \<Rightarrow> (Some (OsError EISDIR), w)
      | Inr (File c) \<Rightarrow>
          (let hash = sha256_hex x c;
               w1 = w\<lparr>trace := trace w @ [IsoHashed isoPath]\<rparr>
           in if hash \<noteq> os_IsoSha256 (be_OS b)
              then (Some (ChecksumMismatchError isoPath hash (os_IsoSha256 (be_OS b))), w1)
              else (None, w1)))"

definition explode_iso :: "ext \<Rightarrow> BootEnv \<Rightarrow> world \<Rightarrow> error option \<times> world" where
  "explode_iso x b w =
     (if \<not> HasSuffix (be_Name b) ''-install'' then (None, w)
      else if os_IsoFile (be_OS b) = [] then (None, w)
      else
        (case PathFor x b ''disk'' (''.'' @ os_Name (be_OS b) @ ''.rebar_canary'') of
           Inl e \<Rightarrow> (Some e, w)
         | Inr canaryPath \<Rightarrow>
             (case os_Stat (fs w) canaryPath of
                Inr n \<Rightarrow> (None, w)
              | Inl ce \<Rightarrow>
                  (let isoPath = path_Join [fileRoot x, ''isos'', os_IsoFile (be_OS b)]
                   in if os_Stat (fs w) isoPath = Inl ENOENT then (None, w)
                      else
                        (case (if os_IsoSha256 (be_OS b) \<noteq> []
                               then iso_checksum x b isoPath w else (None, w)) of
                           (Some e, w1) \<Rightarrow> (Some e, w1)
                         | (None, w1) \<Rightarrow>
                             (let cmdArgs = [os_Name (be_OS b), isoPath, path_Dir canaryPath];
                                  tr = trace w1 @ [Extracted cmdArgs]
                              in case explode_iso_sh x cmdArgs (fs w1) of
                                   (fs2, Some err) \<Rightarrow>
                                     (Some (MediaExtractionError err), w1\<lparr>fs := fs2, trace := tr\<rparr>)
                                 | (fs2, None) \<Rightarrow> (None, w1\<lparr>fs := fs2, trace := tr\<rparr>)))))))"

subsection \<open>Auxiliary files\<close>

definition get_file :: "ext \<Rightarrow> BootEnv \<Rightarrow> FileData \<Rightarrow> world \<Rightarrow> error option \<times> world" where
  "get_file x b f w =
     (case PathFor x b ''disk'' (fd_Name f) of
        Inl e \<Rightarrow> (Some e, w)
      | Inr filePath \<Rightarrow>
          (case os_MkdirAll (fs w) (path_Dir filePath) of
             Inl err \<Rightarrow> (Some (FileMkdirError filePath err), w)
           | Inr fs1 \<Rightarrow>
               (case os_Create fs1 filePath of
                  Inl err \<Rightarrow> (Some (OsError err), w\<lparr>fs := fs1\<rparr>)
                | Inr fs2 \<Rightarrow>
                    (let tr = trace w @ [Downloaded (fd_URL f)]
                     in case http_Get x (fd_URL f) of
                          Inl err \<Rightarrow> (Some (HttpError err), w\<lparr>fs := fs2, trace := tr\<rparr>)
                        | Inr (body, cerr) \<Rightarrow>
                            (map_option CopyError cerr,
                             w\<lparr>fs := file_Write fs2 filePath body, trace := tr\<rparr>)))))"

definition validate_file :: "ext \<Rightarrow> BootEnv \<Rightarrow> FileData \<Rightarrow> world \<Rightarrow> error option" where
  "validate_file x b f w =
     (case PathFor x b ''disk'' (fd_Name f) of
        Inl e \<Rightarrow> Some e
      | Inr filePath \<Rightarrow>
          (if os_Stat (fs w) filePath = Inl ENOENT then Some (FileMissingError filePath)
           else None))"

subsection \<open>onChange and onDelete\<close>

text \<open>The first loop of \<^verbatim>\<open>onChange\<close>, with its three flags.\<close>

fun check_templates ::
  "TemplateInfo list \<Rightarrow> bool \<Rightarrow> bool \<Rightarrow> bool \<Rightarrow> error + bool \<times> bool \<times> bool" where
  "check_templates [] seenPxeLinux seenELilo seenIPXE = Inr (seenPxeLinux, seenELilo, seenIPXE)"
| "check_templates (t # ts) seenPxeLinux seenELilo seenIPXE =
     (let seenPxeLinux = (if ti_Name t = ''pxelinux'' then True else seenPxeLinux);
          seenELilo = (if ti_Name t = ''elilo'' then True else seenELilo);
          seenIPXE = (if ti_Name t = ''ipxe'' then True else seenIPXE)
      in if ti_Name t = [] \<or> ti_Path t = [] \<or> ti_UUID t = []
         then Inl (IllegalTemplateError t)
         else check_templates ts seenPxeLinux seenELilo seenIPXE)"

text \<open>The loop over \<^verbatim>\<open>b.OS.Files\<close>.\<close>

fun fetch_files :: "ext \<Rightarrow> BootEnv \<Rightarrow> FileData list \<Rightarrow> world \<Rightarrow> error option \<times> world" where
  "fetch_files x b [] w = (None, w)"
| "fetch_files x b (f # files) w =
     (case (if validate_file x b f w \<noteq> None then get_file x b f w else (None, w)) of
        (Some e, w1) \<Rightarrow> (Some e, w1)
      | (None, w1) \<Rightarrow>
          (case validate_file x b f w1 of
             Some e \<Rightarrow> (Some e, w1)
           | None \<Rightarrow> fetch_files x b files w1))"

definition check_kernel :: "ext \<Rightarrow> BootEnv \<Rightarrow> world \<Rightarrow> error option" where
  "check_kernel x b w =
     (if be_Kernel b \<noteq> [] then
        (case PathFor x b ''disk'' (be_Kernel b) of
           Inl e \<Rightarrow> Some e
         | Inr kPath \<Rightarrow>
             (case os_Stat (fs w) kPath of
                Inl e \<Rightarrow> Some (MissingKernelError (be_Name b) (be_Kernel b) kPath)
              | Inr Dir \<Rightarrow> Some (InvalidKernelError (be_Name b) (be_Kernel b) kPath)
              | Inr (File c) \<Rightarrow> None))
      else None)"

fun check_initrds :: "ext \<Rightarrow> BootEnv \<Rightarrow> string list \<Rightarrow> world \<Rightarrow> error option" where
  "check_initrds x b [] w = None"
| "check_initrds x b (initrd # rest) w =
     (case PathFor x b ''disk'' initrd of
        Inl e \<Rightarrow> Some e
      | Inr iPath \<Rightarrow>
          (case os_Stat (fs w) iPath of
             Inl e \<Rightarrow> Some (MissingInitrdError (be_Name b) initrd iPath)
           | Inr Dir \<Rightarrow> Some (InvalidInitrdError (be_Name b) initrd iPath)
           | Inr (File c) \<Rightarrow> check_initrds x b rest w))"

text \<open>The loop that renders again for every machine bound to the environment.\<close>

fun cascade ::
  "ext \<Rightarrow> BootEnv \<Rightarrow> string \<Rightarrow> Machine list \<Rightarrow> world \<Rightarrow> error option \<times> BootEnv \<times> world" where
  "cascade x b oldName [] w = (None, b, w)"
| "cascade x b oldName (machine # machines) w =
     (if m_BootEnv machine \<noteq> oldName then cascade x b oldName machines w
      else (case RenderTemplates x b machine w of
              (Some e, b1, w1) \<Rightarrow> (Some e, b1, w1)
            | (None, b1, w1) \<Rightarrow> cascade x b1 oldName machines w1))"

text \<open>
  \<^verbatim>\<open>onChange\<close>; \<open>oldThing\<close> is \<open>Some old\<close> when the argument is a non-nil \<^verbatim>\<open>*BootEnv\<close>.
\<close>

definition onChange ::
  "ext \<Rightarrow> BootEnv \<Rightarrow> BootEnv option \<Rightarrow> world \<Rightarrow> error option \<times> BootEnv \<times> world" where
  "onChange x b oldThing w =
     (case check_templates (be_Templates b) False False False of
        Inl e \<Rightarrow> (Some e, b, w)
      | Inr (seenPxeLinux, seenELilo, seenIPXE) \<Rightarrow>
          (if \<not> seenIPXE \<and> \<not> (seenPxeLinux \<and> seenELilo)
           then (Some IncompleteBootSupportError, b, w)
           else
             (case (if os_IsoFile (be_OS b) \<noteq> [] then explode_iso x b w else (None, w)) of
                (Some e, w1) \<Rightarrow> (Some e, b, w1)
              | (None, w1) \<Rightarrow>
                  (case fetch_files x b (os_Files (be_OS b)) w1 of
                     (Some e, w2) \<Rightarrow> (Some e, b, w2)
                   | (None, w2) \<Rightarrow>
                       (case parseTemplates x b of
                          (Some e, b1) \<Rightarrow> (Some e, b1, w2)
                        | (None, b1) \<Rightarrow>
                            (case check_kernel x b1 w2 of
                               Some e \<Rightarrow> (Some e, b1, w2)
                             | None \<Rightarrow>
                                 (case check_initrds x b1 (be_Initrds b1) w2 of
                                    Some e \<Rightarrow> (Some e, b1, w2)
                                  | None \<Rightarrow>
                                      (case oldThing of
                                         None \<Rightarrow> (None, b1, w2)
                                       | Some old \<Rightarrow>
                                           (if be_Name old \<noteq> be_Name b1
                                            then (Some ImmutableIdentityError, b1, w2)
                                            else
                                              (case Machine_List x of
                                                 Inl err \<Rightarrow> (Some (ListError err), b1, w2)
                                               | Inr machines \<Rightarrow>
                                                   cascade x b1 (be_Name old) machines w2))))))))))"

fun onDelete_loop :: "BootEnv \<Rightarrow> Machine list \<Rightarrow> error option" where
  "onDelete_loop b [] = None"
| "onDelete_loop b (machine # machines) =
     (if m_BootEnv machine \<noteq> be_Name b then onDelete_loop b machines
      else Some (EnvironmentInUseError (be_Name b) (m_Name machine)))"

definition onDelete :: "ext \<Rightarrow> BootEnv \<Rightarrow> error option" where
  "onDelete x b =
     (case Machine_List x of
        Inr machines \<Rightarrow> onDelete_loop b machines
      | Inl err \<Rightarrow> Some (ListError err))"

subsection \<open>Vocabulary of the statements\<close>

text \<open>
  A template that passes the check of \<^verbatim>\<open>onChange\<close> on its three fields; logs that hold
  only path renderings, only content renderings, for one machine.
\<close>

definition legal_template :: "TemplateInfo \<Rightarrow> bool" where
  "legal_template t = (ti_Name t \<noteq> [] \<and> ti_Path t \<noteq> [] \<and> ti_UUID t \<noteq> [])"



definition path_events :: "Machine \<Rightarrow> event list \<Rightarrow> bool" where
  "path_events m evs =
     list_all (\<lambda>ev. case ev of PathRendered n mn \<Rightarrow> mn = m_Name m | _ \<Rightarrow> False) evs"

definition content_events :: "Machine \<Rightarrow> event list \<Rightarrow> bool" where
  "content_events m evs =
     list_all (\<lambda>ev. case ev of ContentRendered n mn \<Rightarrow> mn = m_Name m | _ \<Rightarrow> False) evs"

subsection \<open>Concrete runs\<close>

text \<open>
  A template engine that copies plain text and fails on the action \<^verbatim>\<open>{{.Nope}}\<close>, a
  template store with one good and one bad template, a download that is refused, and
  an install root that holds one extracted tree with its canary and a staged ISO.
\<close>

definition ex_ext :: ext where
  "ex_ext =
     \<lparr>fileRoot = ''/tftpboot'',
      provisionerURL = ''http://10.0.0.1:8091'',
      commandURL = ''https://10.0.0.1:3000'',
      text_Parse = (\<lambda>name text. None),
      text_Execute = (\<lambda>c vars. if snd c = ''{{.Nope}}'' then Inl ''no field Nope'' else Inr (snd c)),
      backend_load = (\<lambda>uuid. Inr \<lparr>tmpl_UUID = uuid,
         tmpl_Contents = (if uuid = ''bad.tmpl'' then ''TTL {{.Nope}}'' else ''TTL 0'')\<rparr>),
      Template_Parse = (\<lambda>t. None),
      Template_Render = (\<lambda>t vars. if tmpl_Contents t = ''TTL {{.Nope}}''
         then (''TTL '', Some ''no field Nope'') else (tmpl_Contents t, None)),
      sha256_hex = (\<lambda>data. ''sha:'' @ data),
      explode_iso_sh = (\<lambda>args F. (F, None)),
      http_Get = (\<lambda>url. Inl ''connection refused''),
      Machine_List = Inr [\<lparr>m_Name = ''node1'', m_BootEnv = ''sledge-install'',
         m_Params = [''dns-domain'' \<mapsto> ''example.com'']\<rparr>]\<rparr>"

definition ex_template :: "string \<Rightarrow> string \<Rightarrow> string \<Rightarrow> TemplateInfo" where
  "ex_template name path uuid =
     \<lparr>ti_Name = name, ti_Path = path, ti_UUID = uuid,
      ti_pathTmpl = None, ti_finalPath = [], ti_contents = None\<rparr>"

definition ex_env :: "string list \<Rightarrow> TemplateInfo list \<Rightarrow> BootEnv" where
  "ex_env required templates =
     \<lparr>be_Name = ''sledge-install'',
      be_OS = \<lparr>os_Name = ''sledge'', os_Family = [], os_Codename = [], os_Version = [],
               os_IsoFile = ''sledge.iso'', os_IsoSha256 = ''sha:pristine'', os_IsoUrl = [],
               os_Files = []\<rparr>,
      be_Templates = templates, be_Kernel = [], be_Initrds = [], be_BootParams = [],
      be_RequiredParams = required, be_bootParamsTmpl = None, be_TenantId = 0\<rparr>"

definition ex_machine :: "(string \<rightharpoonup> string) \<Rightarrow> Machine" where
  "ex_machine params = \<lparr>m_Name = ''node1'', m_BootEnv = ''sledge-install'', m_Params = params\<rparr>"

definition ex_world :: world where
  "ex_world =
     \<lparr>fs = [(''/tftpboot'', Dir), (''/tftpboot/isos'', Dir),
             (''/tftpboot/isos/sledge.iso'', File ''corrupt''),
             (''/tftpboot/sledge'', Dir), (''/tftpboot/sledge/install'', Dir),
             (''/tftpboot/sledge/install/.sledge.rebar_canary'', File [])],
      trace = []\<rparr>"



text \<open>Runs of \<^verbatim>\<open>RenderTemplates\<close> for a machine without the required parameter, with a
  path expression that renders and with one that does not, and a run that succeeds.\<close>

definition ex_run_missing :: "error option \<times> BootEnv \<times> world" where
  "ex_run_missing =
     RenderTemplates ex_ext
       (ex_env [''dns-domain''] [ex_template ''elilo'' ''C0A80001.conf'' ''good.tmpl''])
       (ex_machine Map.empty) ex_world"

definition ex_run_badpath :: "error option \<times> BootEnv \<times> world" where
  "ex_run_badpath =
     RenderTemplates ex_ext
       (ex_env [''dns-domain''] [ex_template ''elilo'' ''{{.Nope}}'' ''good.tmpl''])
       (ex_machine Map.empty) ex_world"

definition ex_run_ok :: "error option \<times> BootEnv \<times> world" where
  "ex_run_ok =
     RenderTemplates ex_ext
       (ex_env [''dns-domain''] [ex_template ''elilo'' ''C0A80001.conf'' ''good.tmpl''])
       (ex_machine [''dns-domain'' \<mapsto> ''example.com'']) ex_world"

text \<open>Boot environments: one without a boot loader template, one with a template that
  has no path, one with an \<^verbatim>\<open>ipxe\<close> template, the discovery environment; an install root
  where the ISO is staged and nothing is extracted yet.\<close>

definition ex_env_nokeys :: BootEnv where
  "ex_env_nokeys = ex_env [] [ex_template ''compute.ks'' ''node1/compute.ks'' ''good.tmpl'']"

definition ex_env_illegal :: BootEnv where
  "ex_env_illegal = ex_env [] [ex_template ''compute.ks'' [] ''good.tmpl'']"

definition ex_env_ipxe :: BootEnv where
  "ex_env_ipxe = ex_env [''dns-domain''] [ex_template ''ipxe'' ''C0A80001.ipxe'' ''good.tmpl'']"

definition ex_world_fresh :: world where
  "ex_world_fresh =
     \<lparr>fs = [(''/tftpboot'', Dir), (''/tftpboot/isos'', Dir),
             (''/tftpboot/isos/sledge.iso'', File ''corrupt'')],
      trace = []\<rparr>"

definition ex_env_discovery :: BootEnv where
  "ex_env_discovery = ex_env_ipxe\<lparr>be_Name := ''discovery'', be_OS := (be_OS ex_env_ipxe)\<lparr>os_Name := ''discovery''\<rparr>\<rparr>"

text \<open>An auxiliary file, and a download that breaks off after four bytes.\<close>

definition ex_file :: FileData where
  "ex_file = \<lparr>fd_URL = ''http://mirror/stage2.img'', fd_Name = ''images/stage2.img'',
              fd_ValidationURL = [], fd_ValidationMethod = []\<rparr>"

definition ex_ext_cut :: ext where
  "ex_ext_cut = ex_ext\<lparr>http_Get := (\<lambda>url. Inr (''half'', Some ''unexpected EOF''))\<rparr>"

section \<open>Properties\<close>

lemmas ex_defs = ex_ext_def ex_template_def ex_env_def ex_machine_def ex_world_def

lemmas path_defs = path_Join_def path_Clean_def clean_elems_def clean_elem_def path_Dir_def
  path_prefixes_def

lemmas os_defs = os_Stat_def os_MkdirAll_def os_Create_def file_Write_def os_Remove_def
  remove_ignore_def has_children_def

lemmas render_defs = RenderTemplates_def parseTemplates_def parse_one_def RenderPaths_def
  missingParams_def mkRenderData_def

subsection \<open>Facts about paths\<close>

lemma split_slash_nonempty: "split_slash p \<noteq> []"
  by (induction p) (auto split: list.splits)

lemma split_slash_append:
  "split_slash (a @ CHR ''/'' # b) = split_slash a @ split_slash b"
  by (induction a) (auto split: list.splits simp: split_slash_nonempty)

lemma join_slash_Cons: "es \<noteq> [] \<Longrightarrow> join_slash (e # es) = e @ CHR ''/'' # join_slash es"
  by (cases es) auto

lemma join_slash_hd: "join_slash ((c # e) # es) = c # join_slash (e # es)"
  by (cases es) auto

lemma join_split: "join_slash (split_slash p) = p"
proof (induction p)
  case Nil
  then show ?case by simp
next
  case (Cons c p)
  then show ?case
    by (cases "split_slash p") (auto simp: split_slash_nonempty join_slash_Cons join_slash_hd)
qed

lemma join_slash_append:
  "xs \<noteq> [] \<Longrightarrow> ys \<noteq> [] \<Longrightarrow> join_slash (xs @ ys) = join_slash xs @ CHR ''/'' # join_slash ys"
  by (induction xs rule: join_slash.induct) (auto simp: join_slash_Cons)

lemma foldl_normal: "list_all normal es \<Longrightarrow> foldl (clean_elem r) out es = out @ es"
  by (induction es arbitrary: out) (auto simp: clean_elem_def normal_def)

lemma plain_nonempty: "plain p \<Longrightarrow> p \<noteq> []"
  by (auto simp: plain_def normal_def)

lemma plain_hd: "plain p \<Longrightarrow> hd p \<noteq> CHR ''/''"
  by (cases p) (auto simp: plain_def normal_def)

lemma clean_plain: "plain p \<Longrightarrow> path_Clean p = p"
  using plain_nonempty[of p] plain_hd[of p]
  by (auto simp: path_Clean_def clean_elems_def foldl_normal plain_def join_split split_slash_nonempty)

lemma clean_rooted_plain: "plain p \<Longrightarrow> path_Clean (CHR ''/'' # p) = CHR ''/'' # p"
  by (auto simp: path_Clean_def clean_elems_def foldl_normal plain_def join_split clean_elem_def)

lemma plain_append: "plain a \<Longrightarrow> plain b \<Longrightarrow> plain (a @ CHR ''/'' # b)"
  by (simp add: plain_def split_slash_append)

lemma join2_plain: "plain a \<Longrightarrow> plain b \<Longrightarrow> path_Join [a, b] = a @ ''/'' @ b"
  using plain_nonempty[of a] clean_plain[OF plain_append, of a b]
  by (simp add: path_Join_def)

lemma join3_plain:
  "plain a \<Longrightarrow> plain b \<Longrightarrow> plain c \<Longrightarrow> path_Join [a, b, c] = a @ ''/'' @ b @ ''/'' @ c"
  using plain_nonempty[of a] clean_plain[OF plain_append[OF _ plain_append], of a b c]
  by (simp add: path_Join_def)

lemma join3_rooted_plain:
  "plain a \<Longrightarrow> plain b \<Longrightarrow> plain c \<Longrightarrow>
   path_Join [CHR ''/'' # a, b, c] = CHR ''/'' # a @ ''/'' @ b @ ''/'' @ c"
  using clean_rooted_plain[OF plain_append[OF _ plain_append], of a b c]
  by (simp add: path_Join_def)

lemma last_split_append: "last (split_slash (a @ CHR ''/'' # b)) = last (split_slash b)"
  by (simp add: split_slash_append split_slash_nonempty)


lemma split_slashfree: "slashfree e \<Longrightarrow> split_slash e = [e]"
  by (induction e) (auto simp: slashfree_def)




















subsection \<open>Facts about the filesystem\<close>

lemma prefixes_from_length: "q \<in> set (prefixes_from cur es) \<Longrightarrow> length cur \<le> length q"
  by (induction es arbitrary: cur) fastforce+

lemma prefixes_from_distinct: "distinct (prefixes_from cur es)"
proof (induction es arbitrary: cur)
  case Nil
  then show ?case by simp
next
  case (Cons e es)
  have "cur @ e \<notin> set (prefixes_from (cur @ e @ ''/'') es)"
    using prefixes_from_length[of "cur @ e" "cur @ e @ ''/''" es] by auto
  with Cons show ?case by simp
qed

lemma path_prefixes_distinct: "distinct (path_prefixes p)"
  by (simp add: path_prefixes_def prefixes_from_distinct)

lemma last_notin_butlast: "distinct qs \<Longrightarrow> qs \<noteq> [] \<Longrightarrow> last qs \<notin> set (butlast qs)"
  by (metis append_butlast_last_id distinct_butlast not_distinct_conv_prefix)

lemma walk_dirs_on:
  "qs \<noteq> [] \<Longrightarrow> dirs_on F qs \<Longrightarrow>
   walk F qs = (case map_of F (last qs) of None \<Rightarrow> Inl ENOENT | Some n \<Rightarrow> Inr n)"
  by (induction F qs rule: walk.induct) (auto simp: dirs_on_def)


lemma create_at_ok:
  "create_at F qs = Inr G \<Longrightarrow>
   qs \<noteq> [] \<and> dirs_on F qs \<and> map_of F (last qs) \<noteq> Some Dir \<and> G = AList.update (last qs) (File []) F"
  by (induction F qs rule: create_at.induct) (auto simp: dirs_on_def split: option.splits node.splits)




lemma step_ok_file:
  assumes cr: "os_Create F1 p = Inr F2"
  shows "os_Stat (file_Write F2 p out) p = Inr (File out)"
proof -
  from cr have p: "p \<noteq> []" and c: "create_at F1 (path_prefixes p) = Inr F2"
    by (auto simp: os_Create_def split: if_splits)
  from create_at_ok[OF c] obtain
    ne: "path_prefixes p \<noteq> []" and d: "dirs_on F1 (path_prefixes p)"
    and F2: "F2 = AList.update (last (path_prefixes p)) (File []) F1" by auto
  let ?k = "last (path_prefixes p)"
  have W: "map_of (file_Write F2 p out) = (map_of F1)(?k \<mapsto> File out)"
    using ne by (auto simp: file_Write_def F2 update_conv' split: list.splits)
  have k: "?k \<notin> set (butlast (path_prefixes p))"
    using last_notin_butlast[OF path_prefixes_distinct ne] .
  have "dirs_on (file_Write F2 p out) (path_prefixes p)"
    using d k by (auto simp: dirs_on_def W)
  then show ?thesis using p ne by (simp add: os_Stat_def walk_dirs_on W)
qed



subsection \<open>Facts about compiling and rendering\<close>

lemma parse_list_length: "parse_list x ts = (r, ts') \<Longrightarrow> length ts' = length ts"
  by (induction ts arbitrary: r ts') (auto split: prod.splits option.splits)

lemma parse_one_error:
  "parse_one x t = (Some e, t') \<Longrightarrow>
   (\<exists>a b c. e = PathCompileError a b c) \<or> (\<exists>a b c. e = TemplateLoadError a b c) \<or>
   (\<exists>a b c. e = TemplateCompileError a b c)"
  by (auto simp: parse_one_def Let_def split: option.splits sum.splits)

lemma parse_list_error:
  "parse_list x ts = (Some e, ts') \<Longrightarrow>
   (\<exists>a b c. e = PathCompileError a b c) \<or> (\<exists>a b c. e = TemplateLoadError a b c) \<or>
   (\<exists>a b c. e = TemplateCompileError a b c)"
proof (induction ts arbitrary: ts')
  case Nil
  then show ?case by simp
next
  case (Cons t ts)
  obtain r1 t1 where p1: "parse_one x t = (r1, t1)" by (cases "parse_one x t")
  show ?case
  proof (cases r1)
    case None
    obtain r2 ts2 where p2: "parse_list x ts = (r2, ts2)" by (cases "parse_list x ts")
    with Cons.prems p1 None have "r2 = Some e" by simp
    with Cons.IH p2 show ?thesis by simp
  next
    case (Some a)
    with Cons.prems p1 have "a = e" by simp
    with p1 Some parse_one_error show ?thesis by blast
  qed
qed

lemma parseTemplates_frame:
  "parseTemplates x b = (r, b1) \<Longrightarrow>
   be_Name b1 = be_Name b \<and> be_RequiredParams b1 = be_RequiredParams b \<and> be_OS b1 = be_OS b \<and>
   length (be_Templates b1) = length (be_Templates b)"
  by (auto simp: parseTemplates_def Let_def split: prod.splits option.splits if_splits
      dest: parse_list_length)


lemma RenderPaths_loop_frame:
  "RenderPaths_loop x m b done ts w = (r, b', w') \<Longrightarrow>
   fs w' = fs w \<and> be_Name b' = be_Name b \<and> be_RequiredParams b' = be_RequiredParams b \<and>
   (\<exists>evs. trace w' = trace w @ evs \<and> path_events m evs \<and> (r = None \<longrightarrow> length evs = length ts)) \<and>
   (r = None \<longrightarrow> length (be_Templates b') = length done + length ts) \<and>
   (\<forall>e. r = Some e \<longrightarrow> e = Panic \<or> (\<exists>n p s. e = PathRenderError n p s))"
proof (induction ts arbitrary: "done" w)
  case Nil
  then show ?case by (auto simp: path_events_def)
next
  case (Cons t ts)
  show ?case
  proof (cases "ti_pathTmpl t")
    case None
    with Cons.prems show ?thesis by (auto simp: path_events_def)
  next
    case (Some c)
    let ?w1 = "w\<lparr>trace := trace w @ [PathRendered (ti_Name t) (m_Name m)]\<rparr>"
    let ?b1 = "b\<lparr>be_Templates := done @ t # ts\<rparr>"
    show ?thesis
    proof (cases "text_Execute x c (mkRenderData x m ?b1)")
      case (Inl err)
      with Cons.prems Some show ?thesis by (auto simp: path_events_def)
    next
      case (Inr pathBuf)
      with Cons.prems Some have
        "RenderPaths_loop x m b (done @ [t\<lparr>ti_finalPath := path_Join [fileRoot x, pathBuf]\<rparr>]) ts ?w1 = (r, b', w')"
        by simp
      from Cons.IH[OF this] obtain evs where
        a: "fs w' = fs w" "be_Name b' = be_Name b" "be_RequiredParams b' = be_RequiredParams b"
        and e: "trace w' = trace ?w1 @ evs" "path_events m evs" "r = None \<longrightarrow> length evs = length ts"
        and l: "r = None \<longrightarrow> length (be_Templates b') = length done + 1 + length ts"
        and k: "\<forall>e. r = Some e \<longrightarrow> e = Panic \<or> (\<exists>n p s. e = PathRenderError n p s)"
        by auto
      have "trace w' = trace w @ (PathRendered (ti_Name t) (m_Name m) # evs)" using e by simp
      moreover have "path_events m (PathRendered (ti_Name t) (m_Name m) # evs)"
        using e by (simp add: path_events_def)
      moreover have "r = None \<longrightarrow> length (PathRendered (ti_Name t) (m_Name m) # evs) = length (t # ts)"
        using e by simp
      moreover have "r = None \<longrightarrow> length (be_Templates b') = length done + length (t # ts)"
        using l by simp
      ultimately show ?thesis using a k by blast
    qed
  qed
qed

lemma render_loop_trace:
  "render_loop x m b ts w = (r, w') \<Longrightarrow>
   \<exists>evs. trace w' = trace w @ evs \<and> content_events m evs"
proof (induction ts arbitrary: w)
  case Nil
  then show ?case by (auto simp: content_events_def)
next
  case (Cons t ts)
  let ?p = "ti_finalPath t"
  show ?case
  proof (cases "os_MkdirAll (fs w) (path_Dir ?p)")
    case (Inl e)
    with Cons.prems show ?thesis by (auto simp: content_events_def)
  next
    case mk: (Inr F1)
    show ?thesis
    proof (cases "os_Create F1 ?p")
      case (Inl e)
      with Cons.prems mk show ?thesis by (auto simp: content_events_def)
    next
      case cr: (Inr F2)
      show ?thesis
      proof (cases "ti_contents t")
        case None
        with Cons.prems mk cr show ?thesis by (auto simp: content_events_def)
      next
        case (Some c)
        obtain out oe where rn: "Template_Render x c (mkRenderData x m b) = (out, oe)"
          by (cases "Template_Render x c (mkRenderData x m b)")
        let ?tr = "trace w @ [ContentRendered (ti_Name t) (m_Name m)]"
        show ?thesis
        proof (cases oe)
          case (Some err)
          with Cons.prems mk cr \<open>ti_contents t = Some c\<close> rn
          have "trace w' = ?tr" by (auto simp: Let_def)
          then show ?thesis by (auto simp: content_events_def)
        next
          case None
          with Cons.prems mk cr \<open>ti_contents t = Some c\<close> rn
          have "render_loop x m b ts (w\<lparr>fs := file_Write F2 ?p out, trace := ?tr\<rparr>) = (r, w')"
            by (simp add: Let_def)
          from Cons.IH[OF this] obtain evs where
            "trace w' = ?tr @ evs" "content_events m evs" by auto
          then have "trace w' = trace w @ (ContentRendered (ti_Name t) (m_Name m) # evs)"
            "content_events m (ContentRendered (ti_Name t) (m_Name m) # evs)"
            by (simp_all add: content_events_def)
          then show ?thesis by blast
        qed
      qed
    qed
  qed
qed





subsection \<open>A content template that fails\<close>




subsection \<open>The order of the steps of RenderTemplates\<close>

lemma render_loop_error:
  "render_loop x m b ts w = (Some e, w') \<Longrightarrow>
   (\<exists>p n. e = MkdirError p n) \<or> (\<exists>p n. e = CreateError p n) \<or> e = Panic \<or>
   (\<exists>n s c. e = ContentRenderError n s c)"
proof (induction ts arbitrary: w)
  case Nil
  then show ?case by simp
next
  case (Cons t ts)
  then show ?case
    by (auto simp: Let_def split: sum.splits option.splits prod.splits)
qed

lemma RenderTemplates_cases:
  obtains
    (parse) e b1 where "parseTemplates x b = (Some e, b1)" "RenderTemplates x b m w = (Some e, b1, w)"
  | (paths) e b1 b2 w1 where "parseTemplates x b = (None, b1)"
      "RenderPaths x b1 m w = (Some e, b2, w1)" "RenderTemplates x b m w = (Some e, b2, w1)"
  | (missing) b1 b2 w1 where "parseTemplates x b = (None, b1)"
      "RenderPaths x b1 m w = (None, b2, w1)" "missingParams b m \<noteq> []"
      "RenderTemplates x b m w =
         (Some (MissingRequiredParamsError (be_Name b) (m_Name m) (missingParams b m)), b2, w1)"
  | (render) b1 b2 w1 r w2 where "parseTemplates x b = (None, b1)"
      "RenderPaths x b1 m w = (None, b2, w1)" "missingParams b m = []"
      "render_loop x m b2 (be_Templates b2) w1 = (r, w2)" "RenderTemplates x b m w = (r, b2, w2)"
proof -
  obtain r1 b1 where p: "parseTemplates x b = (r1, b1)" by (cases "parseTemplates x b")
  obtain r2 b2 w1 where rp: "RenderPaths x b1 m w = (r2, b2, w1)" by (cases "RenderPaths x b1 m w")
  obtain r w2 where rl: "render_loop x m b2 (be_Templates b2) w1 = (r, w2)"
    by (cases "render_loop x m b2 (be_Templates b2) w1")
  have f1: "be_Name b1 = be_Name b" "be_RequiredParams b1 = be_RequiredParams b"
    using parseTemplates_frame[OF p] by auto
  have f2: "be_Name b2 = be_Name b1" "be_RequiredParams b2 = be_RequiredParams b1"
    using RenderPaths_loop_frame[of x m b1 "[]" "be_Templates b1" w r2 b2 w1] rp
    by (auto simp: RenderPaths_def)
  have mp: "missingParams b2 m = missingParams b m" using f1 f2 by (simp add: missingParams_def)
  show thesis
  proof (cases r1)
    case (Some e)
    with p show ?thesis by (intro parse[of e b1]) (simp_all add: RenderTemplates_def)
  next
    case n1: None
    show ?thesis
    proof (cases r2)
      case (Some e)
      with p n1 rp show ?thesis by (intro paths[of b1 e b2 w1]) (simp_all add: RenderTemplates_def)
    next
      case n2: None
      show ?thesis
      proof (cases "missingParams b m = []")
        case True
        with p n1 rp n2 rl mp show ?thesis
          by (intro render[of b1 b2 w1 r w2]) (simp_all add: RenderTemplates_def)
      next
        case False
        with p n1 rp n2 mp f1 f2 show ?thesis
          by (intro missing[of b1 b2 w1]) (simp_all add: RenderTemplates_def)
      qed
    qed
  qed
qed

subsection \<open>A machine that lacks a required parameter\<close>

text \<open>
  Claim C2, as the code has it. For a machine that lacks one of the required
  parameters, \<^verbatim>\<open>RenderTemplates\<close> returns an error and leaves the filesystem as it
  was: no destination file and no directory is created. The error is the one that
  names the missing parameters when compiling the templates and rendering the path
  expressions both succeeded; they run first, and an error of theirs is returned
  instead.
\<close>

theorem RenderTemplates_missing_params:
  assumes "missingParams b m \<noteq> []"
  shows "\<exists>e b' w'. RenderTemplates x b m w = (Some e, b', w') \<and> fs w' = fs w \<and>
           (fst (parseTemplates x b) = None \<and>
            fst (RenderPaths x (snd (parseTemplates x b)) m w) = None
              \<longrightarrow> e = MissingRequiredParamsError (be_Name b) (m_Name m) (missingParams b m))"
proof (cases rule: RenderTemplates_cases[of x b m w])
  case (parse e b1)
  then show ?thesis by simp
next
  case (paths e b1 b2 w1)
  then have "fs w1 = fs w"
    using RenderPaths_loop_frame[of x m b1 "[]" "be_Templates b1" w "Some e" b2 w1]
    by (simp add: RenderPaths_def)
  with paths show ?thesis by simp
next
  case (missing b1 b2 w1)
  then have "fs w1 = fs w"
    using RenderPaths_loop_frame[of x m b1 "[]" "be_Templates b1" w None b2 w1]
    by (simp add: RenderPaths_def)
  with missing show ?thesis by simp
next
  case (render b1 b2 w1 r w2)
  with assms show ?thesis by simp
qed

theorem RenderTemplates_missing_params_witness:
  "missingParams (ex_env [''dns-domain''] [ex_template ''elilo'' ''C0A80001.conf'' ''good.tmpl''])
     (ex_machine Map.empty) \<noteq> [] \<and>
   fst ex_run_missing = Some (MissingRequiredParamsError ''sledge-install'' ''node1'' [''dns-domain'']) \<and>
   fs (snd (snd ex_run_missing)) = fs ex_world"
proof -
  have h: "missingParams (ex_env [''dns-domain''] [ex_template ''elilo'' ''C0A80001.conf'' ''good.tmpl''])
     (ex_machine Map.empty) \<noteq> []"
    by (simp add: missingParams_def ex_defs)
  have p: "fst (parseTemplates ex_ext
       (ex_env [''dns-domain''] [ex_template ''elilo'' ''C0A80001.conf'' ''good.tmpl''])) = None"
    "fst (RenderPaths ex_ext (snd (parseTemplates ex_ext
       (ex_env [''dns-domain''] [ex_template ''elilo'' ''C0A80001.conf'' ''good.tmpl''])))
       (ex_machine Map.empty) ex_world) = None"
    by (simp_all add: ex_defs path_defs render_defs Let_def)
  have m: "missingParams (ex_env [''dns-domain''] [ex_template ''elilo'' ''C0A80001.conf'' ''good.tmpl''])
     (ex_machine Map.empty) = [''dns-domain'']"
    "be_Name (ex_env [''dns-domain''] [ex_template ''elilo'' ''C0A80001.conf'' ''good.tmpl''])
       = ''sledge-install''"
    "m_Name (ex_machine Map.empty) = ''node1''"
    by (simp_all add: missingParams_def ex_defs)
  from RenderTemplates_missing_params[OF h, of ex_ext ex_world] p m
  show ?thesis using h by (auto simp: ex_run_missing_def)
qed

text \<open>
  The claim as it is written fails for a path expression that does not render: the
  machine lacks \<^verbatim>\<open>dns-domain\<close>, and the error returned is the one of the path.
\<close>

theorem RenderTemplates_missing_params_counterexample:
  "missingParams (ex_env [''dns-domain''] [ex_template ''elilo'' ''{{.Nope}}'' ''good.tmpl''])
     (ex_machine Map.empty) = [''dns-domain''] \<and>
   fst ex_run_badpath = Some (PathRenderError ''elilo'' ''{{.Nope}}'' ''no field Nope'')"
  by (simp add: ex_run_badpath_def ex_defs path_defs render_defs Let_def)

subsection \<open>Validation and rendering\<close>

text \<open>
  Claim C3, as the code has it. The log of a call of \<^verbatim>\<open>RenderTemplates\<close> is a run of path
  renderings followed by a run of content renderings. A content template is rendered,
  or the filesystem changed, only when no required parameter is missing and after the
  path expression of every template has been rendered. When the call returns the error
  of the missing parameters, the path expression of every template has been rendered
  before, no content template has been, and the filesystem is as it was.
\<close>

theorem RenderTemplates_order:
  assumes "RenderTemplates x b m w = (r, b', w')"
  shows "\<exists>pe ce. trace w' = trace w @ pe @ ce \<and> path_events m pe \<and> content_events m ce \<and>
           (ce \<noteq> [] \<or> fs w' \<noteq> fs w
              \<longrightarrow> missingParams b m = [] \<and> length pe = length (be_Templates b)) \<and>
           ((\<exists>mp. r = Some (MissingRequiredParamsError (be_Name b) (m_Name m) mp))
              \<longrightarrow> length pe = length (be_Templates b) \<and> ce = [] \<and> fs w' = fs w)"
proof (cases rule: RenderTemplates_cases[of x b m w])
  case (parse e b1)
  with assms have "w' = w" "r = Some e" by simp_all
  moreover have "\<forall>mp. e \<noteq> MissingRequiredParamsError (be_Name b) (m_Name m) mp"
    using parse(1) by (auto simp: parseTemplates_def Let_def split: prod.splits option.splits if_splits
        dest: parse_list_error)
  ultimately have "trace w' = trace w @ [] @ [] \<and> path_events m [] \<and> content_events m [] \<and>
           ([] \<noteq> ([]::event list) \<or> fs w' \<noteq> fs w
              \<longrightarrow> missingParams b m = [] \<and> length ([]::event list) = length (be_Templates b)) \<and>
           ((\<exists>mp. r = Some (MissingRequiredParamsError (be_Name b) (m_Name m) mp))
              \<longrightarrow> length ([]::event list) = length (be_Templates b) \<and> [] = ([]::event list) \<and> fs w' = fs w)"
    by (simp add: path_events_def content_events_def)
  then show ?thesis by blast
next
  case (paths e b1 b2 w1)
  from RenderPaths_loop_frame[of x m b1 "[]" "be_Templates b1" w "Some e" b2 w1] paths(2)
  obtain evs where f: "fs w1 = fs w" "trace w1 = trace w @ evs" "path_events m evs"
    and k: "e = Panic \<or> (\<exists>n p s. e = PathRenderError n p s)"
    by (auto simp: RenderPaths_def)
  from assms paths have "w' = w1" "r = Some e" by simp_all
  with f k have "trace w' = trace w @ evs @ [] \<and> path_events m evs \<and> content_events m [] \<and>
           ([] \<noteq> ([]::event list) \<or> fs w' \<noteq> fs w
              \<longrightarrow> missingParams b m = [] \<and> length evs = length (be_Templates b)) \<and>
           ((\<exists>mp. r = Some (MissingRequiredParamsError (be_Name b) (m_Name m) mp))
              \<longrightarrow> length evs = length (be_Templates b) \<and> [] = ([]::event list) \<and> fs w' = fs w)"
    by (auto simp: content_events_def)
  then show ?thesis by blast
next
  case (missing b1 b2 w1)
  from RenderPaths_loop_frame[of x m b1 "[]" "be_Templates b1" w None b2 w1] missing(2)
  obtain evs where f: "fs w1 = fs w" "trace w1 = trace w @ evs" "path_events m evs"
    "length evs = length (be_Templates b1)"
    by (auto simp: RenderPaths_def)
  have l: "length (be_Templates b1) = length (be_Templates b)"
    using parseTemplates_frame[OF missing(1)] by simp
  from assms missing have "w' = w1" by simp
  with f l have "trace w' = trace w @ evs @ [] \<and> path_events m evs \<and> content_events m [] \<and>
           ([] \<noteq> ([]::event list) \<or> fs w' \<noteq> fs w
              \<longrightarrow> missingParams b m = [] \<and> length evs = length (be_Templates b)) \<and>
           ((\<exists>mp. r = Some (MissingRequiredParamsError (be_Name b) (m_Name m) mp))
              \<longrightarrow> length evs = length (be_Templates b) \<and> [] = ([]::event list) \<and> fs w' = fs w)"
    by (simp add: content_events_def)
  then show ?thesis by blast
next
  case (render b1 b2 w1 r0 w2)
  from RenderPaths_loop_frame[of x m b1 "[]" "be_Templates b1" w None b2 w1] render(2)
  obtain evs where f: "fs w1 = fs w" "trace w1 = trace w @ evs" "path_events m evs"
    "length evs = length (be_Templates b1)"
    by (auto simp: RenderPaths_def)
  have l: "length (be_Templates b1) = length (be_Templates b)"
    using parseTemplates_frame[OF render(1)] by simp
  from render_loop_trace[OF render(4)] obtain ce where
    c: "trace w2 = trace w1 @ ce" "content_events m ce" by blast
  have ne: "\<forall>mp. r0 \<noteq> Some (MissingRequiredParamsError (be_Name b) (m_Name m) mp)"
    using render_loop_error[of x m b2 "be_Templates b2" w1 _ w2] render(4) by auto
  from assms render have "w' = w2" "r = r0" by simp_all
  with f l c ne render(3) have "trace w' = trace w @ evs @ ce \<and> path_events m evs \<and> content_events m ce \<and>
           (ce \<noteq> [] \<or> fs w' \<noteq> fs w
              \<longrightarrow> missingParams b m = [] \<and> length evs = length (be_Templates b)) \<and>
           ((\<exists>mp. r = Some (MissingRequiredParamsError (be_Name b) (m_Name m) mp))
              \<longrightarrow> length evs = length (be_Templates b) \<and> ce = [] \<and> fs w' = fs w)"
    by simp
  then show ?thesis by blast
qed

theorem RenderTemplates_order_witness:
  "fst ex_run_ok = None \<and>
   trace (snd (snd ex_run_ok)) = [PathRendered ''elilo'' ''node1'', ContentRendered ''elilo'' ''node1''] \<and>
   (\<exists>pe ce. trace (snd (snd ex_run_ok)) = trace ex_world @ pe @ ce \<and>
      path_events (ex_machine [''dns-domain'' \<mapsto> ''example.com'']) pe \<and>
      content_events (ex_machine [''dns-domain'' \<mapsto> ''example.com'']) ce \<and>
      (ce \<noteq> [] \<or> fs (snd (snd ex_run_ok)) \<noteq> fs ex_world \<longrightarrow>
         missingParams (ex_env [''dns-domain''] [ex_template ''elilo'' ''C0A80001.conf'' ''good.tmpl''])
           (ex_machine [''dns-domain'' \<mapsto> ''example.com'']) = [] \<and>
         length pe = 1))"
proof -
  have r: "RenderTemplates ex_ext
       (ex_env [''dns-domain''] [ex_template ''elilo'' ''C0A80001.conf'' ''good.tmpl''])
       (ex_machine [''dns-domain'' \<mapsto> ''example.com'']) ex_world
     = (fst ex_run_ok, fst (snd ex_run_ok), snd (snd ex_run_ok))"
    by (simp add: ex_run_ok_def)
  have v: "fst ex_run_ok = None"
    "trace (snd (snd ex_run_ok)) = [PathRendered ''elilo'' ''node1'', ContentRendered ''elilo'' ''node1'']"
    by (simp_all add: ex_run_ok_def ex_defs path_defs os_defs render_defs Let_def)
  have l: "length (be_Templates (ex_env [''dns-domain''] [ex_template ''elilo'' ''C0A80001.conf'' ''good.tmpl''])) = 1"
    by (simp add: ex_defs)
  from RenderTemplates_order[OF r] obtain pe ce where
    "trace (snd (snd ex_run_ok)) = trace ex_world @ pe @ ce"
    "path_events (ex_machine [''dns-domain'' \<mapsto> ''example.com'']) pe"
    "content_events (ex_machine [''dns-domain'' \<mapsto> ''example.com'']) ce"
    "ce \<noteq> [] \<or> fs (snd (snd ex_run_ok)) \<noteq> fs ex_world \<longrightarrow>
         missingParams (ex_env [''dns-domain''] [ex_template ''elilo'' ''C0A80001.conf'' ''good.tmpl''])
           (ex_machine [''dns-domain'' \<mapsto> ''example.com'']) = [] \<and>
         length pe = length (be_Templates (ex_env [''dns-domain''] [ex_template ''elilo'' ''C0A80001.conf'' ''good.tmpl'']))"
    by blast
  then show ?thesis using v unfolding l by blast
qed

text \<open>
  The claim as it is written fails: the machine lacks \<^verbatim>\<open>dns-domain\<close>, the validation
  does not pass, and the path expression of the template has been rendered.
\<close>

theorem RenderTemplates_order_counterexample:
  "fst ex_run_missing = Some (MissingRequiredParamsError ''sledge-install'' ''node1'' [''dns-domain'']) \<and>
   trace ex_world = [] \<and>
   trace (snd (snd ex_run_missing)) = [PathRendered ''elilo'' ''node1'']"
  by (simp add: ex_run_missing_def ex_defs path_defs render_defs Let_def)

subsection \<open>PathFor on the disk\<close>

lemma PathFor_disk:
  "PathFor x b ''disk'' f = Inr (path_Join [fileRoot x, install_segment b, f])"
  by (simp add: PathFor_def install_segment_def Let_def)

subsection \<open>The structural check of onChange\<close>

lemma check_templates_legal:
  "list_all legal_template ts \<Longrightarrow>
   check_templates ts p e i =
     Inr (p \<or> ''pxelinux'' \<in> ti_Name ` set ts, e \<or> ''elilo'' \<in> ti_Name ` set ts,
          i \<or> ''ipxe'' \<in> ti_Name ` set ts)"
proof (induction ts arbitrary: p e i)
  case Nil
  then show ?case by simp
next
  case (Cons t ts)
  from Cons.prems have r: "list_all legal_template ts" and "legal_template t" by simp_all
  then have l: "ti_Name t \<noteq> []" "ti_Path t \<noteq> []" "ti_UUID t \<noteq> []"
    by (simp_all add: legal_template_def)
  show ?case using l Cons.IH[OF r] by (auto simp: Let_def)
qed

lemma check_templates_illegal:
  "\<not> list_all legal_template ts \<Longrightarrow>
   \<exists>pre t post. ts = pre @ t # post \<and> list_all legal_template pre \<and> \<not> legal_template t \<and>
     check_templates ts p e i = Inl (IllegalTemplateError t)"
proof (induction ts arbitrary: p e i)
  case Nil
  then show ?case by simp
next
  case (Cons t ts)
  show ?case
  proof (cases "legal_template t")
    case True
    with Cons.prems have nl: "\<not> list_all legal_template ts" by simp
    let ?p = "if ti_Name t = ''pxelinux'' then True else p"
    let ?e = "if ti_Name t = ''elilo'' then True else e"
    let ?i = "if ti_Name t = ''ipxe'' then True else i"
    from Cons.IH[OF nl, of ?p ?e ?i] obtain pre u post where
      ts: "ts = pre @ u # post" and l: "list_all legal_template pre" and n: "\<not> legal_template u"
      and c: "check_templates ts ?p ?e ?i = Inl (IllegalTemplateError u)"
      by blast
    have st: "check_templates (t # ts) p e i = check_templates ts ?p ?e ?i"
      using True by (simp add: Let_def legal_template_def)
    have "t # ts = (t # pre) @ u # post" using ts by simp
    moreover have "list_all legal_template (t # pre)" using True l by simp
    moreover have "check_templates (t # ts) p e i = Inl (IllegalTemplateError u)"
      using st c by simp
    ultimately show ?thesis using n by blast
  next
    case False
    then have "check_templates (t # ts) p e i = Inl (IllegalTemplateError t)"
      by (auto simp: Let_def legal_template_def)
    moreover have "t # ts = [] @ t # ts" "list_all legal_template []" by simp_all
    ultimately show ?thesis using False by blast
  qed
qed

text \<open>
  Claim C4, as the code has it. For a boot environment with no template named
  \<^verbatim>\<open>ipxe\<close> that lacks \<^verbatim>\<open>pxelinux\<close> or \<^verbatim>\<open>elilo\<close>, \<^verbatim>\<open>onChange\<close> returns an error and
  leaves the environment, the filesystem and the log as they were: nothing is
  extracted, downloaded or rendered. The error is the one of incomplete boot support
  when every template has a name, a path and a UUID; otherwise it is the error of the
  first template that lacks one (every template before it has all three), which the
  loop returns before the flags are looked at.
\<close>

theorem onChange_incomplete_boot_support:
  assumes "''ipxe'' \<notin> ti_Name ` set (be_Templates b)"
    and "''pxelinux'' \<notin> ti_Name ` set (be_Templates b) \<or> ''elilo'' \<notin> ti_Name ` set (be_Templates b)"
  shows "\<exists>e. onChange x b oldThing w = (Some e, b, w) \<and>
           (if list_all legal_template (be_Templates b) then e = IncompleteBootSupportError
            else \<exists>pre t post. be_Templates b = pre @ t # post \<and> list_all legal_template pre \<and>
                   \<not> legal_template t \<and> e = IllegalTemplateError t)"
proof (cases "list_all legal_template (be_Templates b)")
  case True
  from check_templates_legal[OF True, of False False False] assms
  have "onChange x b oldThing w = (Some IncompleteBootSupportError, b, w)"
    by (auto simp: onChange_def)
  with True show ?thesis by simp
next
  case False
  from check_templates_illegal[OF False, of False False False] obtain pre t post where
    "be_Templates b = pre @ t # post" "list_all legal_template pre" "\<not> legal_template t"
    and c: "check_templates (be_Templates b) False False False = Inl (IllegalTemplateError t)"
    by blast
  moreover from c have "onChange x b oldThing w = (Some (IllegalTemplateError t), b, w)"
    by (simp add: onChange_def)
  ultimately show ?thesis using False by auto
qed

theorem onChange_incomplete_boot_support_witness:
  "''ipxe'' \<notin> ti_Name ` set (be_Templates ex_env_nokeys) \<and>
   ''pxelinux'' \<notin> ti_Name ` set (be_Templates ex_env_nokeys) \<and>
   list_all legal_template (be_Templates ex_env_nokeys) \<and>
   onChange ex_ext ex_env_nokeys None ex_world = (Some IncompleteBootSupportError, ex_env_nokeys, ex_world)"
proof -
  have a: "''ipxe'' \<notin> ti_Name ` set (be_Templates ex_env_nokeys)"
    and b: "''pxelinux'' \<notin> ti_Name ` set (be_Templates ex_env_nokeys)"
    and c: "list_all legal_template (be_Templates ex_env_nokeys)"
    by (simp_all add: ex_env_nokeys_def ex_defs legal_template_def)
  from onChange_incomplete_boot_support[OF a disjI1[OF b], of ex_ext None ex_world] a b c
  show ?thesis by auto
qed

text \<open>
  The claim as it is written fails for a template without a path: the environment has
  neither \<^verbatim>\<open>ipxe\<close> nor \<^verbatim>\<open>pxelinux\<close>, and the error is the one of the illegal template.
\<close>

theorem onChange_incomplete_boot_support_counterexample:
  "map ti_Name (be_Templates ex_env_illegal) = [''compute.ks''] \<and>
   fst (onChange ex_ext ex_env_illegal None ex_world)
     = Some (IllegalTemplateError (ex_template ''compute.ks'' [] ''good.tmpl''))"
  by (simp add: ex_env_illegal_def ex_defs onChange_def Let_def)

subsection \<open>Media preparation\<close>

text \<open>
  Claim C5. When \<^verbatim>\<open>os.Stat\<close> finds the canary at its path on the disk, \<^verbatim>\<open>explode_iso\<close>
  returns no error and leaves the filesystem and the log as they were: the ISO is not
  hashed and the extraction script is not run. The same holds for any number of calls
  in a row.
\<close>

theorem explode_iso_canary:
  assumes "os_Stat (fs w)
             (path_Join [fileRoot x, install_segment b, ''.'' @ os_Name (be_OS b) @ ''.rebar_canary''])
           = Inr n"
  shows "explode_iso x b w = (None, w) \<and> ((\<lambda>v. snd (explode_iso x b v)) ^^ k) w = w"
proof -
  have e: "explode_iso x b w = (None, w)"
    using assms by (simp add: explode_iso_def PathFor_disk)
  then have "(\<lambda>v. snd (explode_iso x b v)) w = w" by simp
  then have "((\<lambda>v. snd (explode_iso x b v)) ^^ k) w = w" by (induction k) simp_all
  with e show ?thesis by simp
qed

theorem explode_iso_canary_witness:
  "os_Stat (fs ex_world) ''/tftpboot/sledge/install/.sledge.rebar_canary'' = Inr (File []) \<and>
   explode_iso ex_ext ex_env_ipxe ex_world = (None, ex_world) \<and>
   ((\<lambda>v. snd (explode_iso ex_ext ex_env_ipxe v)) ^^ 2) ex_world = ex_world"
proof -
  have p: "path_Join [fileRoot ex_ext, install_segment ex_env_ipxe,
             ''.'' @ os_Name (be_OS ex_env_ipxe) @ ''.rebar_canary'']
           = ''/tftpboot/sledge/install/.sledge.rebar_canary''"
    by (simp add: ex_env_ipxe_def ex_defs install_segment_def path_defs)
  have s: "os_Stat (fs ex_world) ''/tftpboot/sledge/install/.sledge.rebar_canary'' = Inr (File [])"
    by (simp add: ex_defs path_defs os_defs)
  from explode_iso_canary[of ex_world ex_ext ex_env_ipxe "File []" 2] p s
  show ?thesis by simp
qed

text \<open>
  Claim C6, as the code has it. Let the boot environment pass the structural check,
  have a name that ends in \<^verbatim>\<open>-install\<close>, an ISO file and a checksum, let its canary be
  absent and the staged ISO be a regular file. If the hash of the ISO differs from the
  checksum, \<^verbatim>\<open>onChange\<close> returns the checksum error; the only call it has made is the
  hashing, so no template is rendered for any machine, and the filesystem is as it was.
\<close>

theorem onChange_checksum_mismatch:
  assumes "list_all legal_template (be_Templates b)"
    and "''ipxe'' \<in> ti_Name ` set (be_Templates b) \<or>
         ''pxelinux'' \<in> ti_Name ` set (be_Templates b) \<and> ''elilo'' \<in> ti_Name ` set (be_Templates b)"
    and "HasSuffix (be_Name b) ''-install''"
    and "os_IsoFile (be_OS b) \<noteq> []"
    and "os_IsoSha256 (be_OS b) \<noteq> []"
    and "os_Stat (fs w)
           (path_Join [fileRoot x, install_segment b, ''.'' @ os_Name (be_OS b) @ ''.rebar_canary''])
         = Inl ce"
    and "os_Stat (fs w) (path_Join [fileRoot x, ''isos'', os_IsoFile (be_OS b)]) = Inr (File c)"
    and "sha256_hex x c \<noteq> os_IsoSha256 (be_OS b)"
  shows "onChange x b oldThing w =
           (Some (ChecksumMismatchError (path_Join [fileRoot x, ''isos'', os_IsoFile (be_OS b)])
                    (sha256_hex x c) (os_IsoSha256 (be_OS b))),
            b,
            w\<lparr>trace := trace w @ [IsoHashed (path_Join [fileRoot x, ''isos'', os_IsoFile (be_OS b)])]\<rparr>)"
proof -
  have "explode_iso x b w =
          (Some (ChecksumMismatchError (path_Join [fileRoot x, ''isos'', os_IsoFile (be_OS b)])
                    (sha256_hex x c) (os_IsoSha256 (be_OS b))),
           w\<lparr>trace := trace w @ [IsoHashed (path_Join [fileRoot x, ''isos'', os_IsoFile (be_OS b)])]\<rparr>)"
    using assms(3-8) by (simp add: explode_iso_def PathFor_disk iso_checksum_def Let_def)
  then show ?thesis
    using check_templates_legal[OF assms(1), of False False False] assms(2,4)
    by (auto simp: onChange_def)
qed

theorem onChange_checksum_mismatch_witness:
  "onChange ex_ext ex_env_ipxe (Some ex_env_ipxe) ex_world_fresh =
     (Some (ChecksumMismatchError ''/tftpboot/isos/sledge.iso'' ''sha:corrupt'' ''sha:pristine''),
      ex_env_ipxe,
      ex_world_fresh\<lparr>trace := [IsoHashed ''/tftpboot/isos/sledge.iso'']\<rparr>)"
proof -
  have 1: "list_all legal_template (be_Templates ex_env_ipxe)"
    by (simp add: ex_env_ipxe_def ex_defs legal_template_def)
  have 2: "''ipxe'' \<in> ti_Name ` set (be_Templates ex_env_ipxe) \<or>
         ''pxelinux'' \<in> ti_Name ` set (be_Templates ex_env_ipxe) \<and>
         ''elilo'' \<in> ti_Name ` set (be_Templates ex_env_ipxe)"
    by (simp add: ex_env_ipxe_def ex_defs)
  have 3: "HasSuffix (be_Name ex_env_ipxe) ''-install''"
    by (simp add: ex_env_ipxe_def ex_defs HasSuffix_def)
  have 4: "os_IsoFile (be_OS ex_env_ipxe) \<noteq> []" and 5: "os_IsoSha256 (be_OS ex_env_ipxe) \<noteq> []"
    by (simp_all add: ex_env_ipxe_def ex_defs)
  have 6: "os_Stat (fs ex_world_fresh)
           (path_Join [fileRoot ex_ext, install_segment ex_env_ipxe,
              ''.'' @ os_Name (be_OS ex_env_ipxe) @ ''.rebar_canary''])
         = Inl ENOENT"
    by (simp add: ex_env_ipxe_def ex_world_fresh_def ex_defs install_segment_def path_defs os_defs)
  have 7: "os_Stat (fs ex_world_fresh) (path_Join [fileRoot ex_ext, ''isos'', os_IsoFile (be_OS ex_env_ipxe)])
         = Inr (File ''corrupt'')"
    by (simp add: ex_env_ipxe_def ex_world_fresh_def ex_defs path_defs os_defs)
  have 8: "sha256_hex ex_ext ''corrupt'' \<noteq> os_IsoSha256 (be_OS ex_env_ipxe)"
    by (simp add: ex_env_ipxe_def ex_defs)
  have p: "path_Join [fileRoot ex_ext, ''isos'', os_IsoFile (be_OS ex_env_ipxe)] = ''/tftpboot/isos/sledge.iso''"
    by (simp add: ex_env_ipxe_def ex_defs path_defs)
  have v: "sha256_hex ex_ext ''corrupt'' = ''sha:corrupt''" "os_IsoSha256 (be_OS ex_env_ipxe) = ''sha:pristine''"
    "trace ex_world_fresh = []"
    by (simp_all add: ex_env_ipxe_def ex_world_fresh_def ex_defs)
  from onChange_checksum_mismatch[OF 1 2 3 4 5 6 7 8, of "Some ex_env_ipxe"]
  show ?thesis unfolding p v by simp
qed

text \<open>
  The claim as it is written fails where the canary is in place: the staged ISO does
  not match the checksum, \<^verbatim>\<open>explode_iso\<close> returns before it looks at the ISO,
  \<^verbatim>\<open>onChange\<close> succeeds and the template is rendered for the bound machine.
\<close>

theorem onChange_checksum_mismatch_counterexample:
  "os_IsoSha256 (be_OS ex_env_ipxe) = ''sha:pristine'' \<and>
   os_Stat (fs ex_world) ''/tftpboot/isos/sledge.iso'' = Inr (File ''corrupt'') \<and>
   sha256_hex ex_ext ''corrupt'' = ''sha:corrupt'' \<and>
   fst (onChange ex_ext ex_env_ipxe (Some ex_env_ipxe) ex_world) = None \<and>
   trace (snd (snd (onChange ex_ext ex_env_ipxe (Some ex_env_ipxe) ex_world)))
     = [PathRendered ''ipxe'' ''node1'', ContentRendered ''ipxe'' ''node1'']"
  by (simp add: ex_env_ipxe_def ex_defs onChange_def explode_iso_def PathFor_def HasSuffix_def
      check_kernel_def path_defs os_defs render_defs Let_def)

subsection \<open>Deleting a boot environment\<close>

lemma onDelete_loop_in_use:
  "\<exists>m \<in> set ms. m_BootEnv m = be_Name b \<Longrightarrow>
   \<exists>m \<in> set ms. m_BootEnv m = be_Name b \<and>
     onDelete_loop b ms = Some (EnvironmentInUseError (be_Name b) (m_Name m))"
  by (induction ms) auto

lemma onDelete_loop_free: "\<forall>m \<in> set ms. m_BootEnv m \<noteq> be_Name b \<Longrightarrow> onDelete_loop b ms = None"
  by (induction ms) auto

text \<open>
  Claim C7. With \<open>ms\<close> the machine records that \<^verbatim>\<open>machine.List\<close> returns: when a record
  names the environment, \<^verbatim>\<open>onDelete\<close> returns the error that the environment is in use by
  such a machine; when no record names it, \<^verbatim>\<open>onDelete\<close> returns no error.
\<close>

theorem onDelete_guard:
  assumes "Machine_List x = Inr ms"
  shows "((\<exists>m \<in> set ms. m_BootEnv m = be_Name b) \<longrightarrow>
            (\<exists>m \<in> set ms. m_BootEnv m = be_Name b \<and>
               onDelete x b = Some (EnvironmentInUseError (be_Name b) (m_Name m)))) \<and>
         ((\<forall>m \<in> set ms. m_BootEnv m \<noteq> be_Name b) \<longrightarrow> onDelete x b = None)"
  using assms onDelete_loop_in_use[of ms b] onDelete_loop_free[of ms b]
  by (simp add: onDelete_def)

theorem onDelete_guard_witness:
  "Machine_List ex_ext = Inr [ex_machine [''dns-domain'' \<mapsto> ''example.com'']] \<and>
   onDelete ex_ext ex_env_ipxe = Some (EnvironmentInUseError ''sledge-install'' ''node1'') \<and>
   onDelete ex_ext (ex_env_ipxe\<lparr>be_Name := ''discovery''\<rparr>) = None"
proof -
  have l: "Machine_List ex_ext = Inr [ex_machine [''dns-domain'' \<mapsto> ''example.com'']]"
    by (simp add: ex_defs)
  have n: "be_Name ex_env_ipxe = ''sledge-install''"
    "m_BootEnv (ex_machine [''dns-domain'' \<mapsto> ''example.com'']) = ''sledge-install''"
    "m_Name (ex_machine [''dns-domain'' \<mapsto> ''example.com'']) = ''node1''"
    by (simp_all add: ex_env_ipxe_def ex_defs)
  from onDelete_guard[OF l, of ex_env_ipxe] onDelete_guard[OF l, of "ex_env_ipxe\<lparr>be_Name := ''discovery''\<rparr>"]
  show ?thesis using l n by simp
qed

subsection \<open>PathFor\<close>

lemma last_split_join_snoc:
  assumes "slashfree e"
  shows "last (split_slash (join_slash (out @ [e]))) = e"
proof (cases "out = []")
  case True
  with assms show ?thesis by (simp add: split_slashfree)
next
  case False
  then have "join_slash (out @ [e]) = join_slash out @ CHR ''/'' # e"
    using join_slash_append[of out "[e]"] by simp
  with assms show ?thesis by (simp add: split_slash_append split_slashfree)
qed

lemma last_split_slash_rooted: "last (split_slash (CHR ''/'' # p)) = last (split_slash p)"
  by (simp add: split_slash_nonempty)

lemma last_Clean_snoc:
  assumes "slashfree e" and "normal e"
  shows "last (split_slash (path_Clean (n @ CHR ''/'' # e))) = e"
proof -
  let ?q = "n @ CHR ''/'' # e"
  define r where "r = (hd ?q = CHR ''/'')"
  define out where "out = foldl (clean_elem r) [] (split_slash n)"
  have "clean_elems ?q = clean_elem r out e"
    using assms(1) by (simp add: clean_elems_def out_def r_def split_slash_append split_slashfree)
  also have "\<dots> = out @ [e]" using assms(2) by (simp add: clean_elem_def normal_def)
  finally have ce: "clean_elems ?q = out @ [e]" .
  have L: "last (split_slash (join_slash (out @ [e]))) = e"
    by (rule last_split_join_snoc[OF assms(1)])
  show ?thesis
  proof (cases "hd ?q = CHR ''/''")
    case True
    then have "path_Clean ?q = CHR ''/'' # join_slash (out @ [e])" by (simp add: path_Clean_def ce)
    then show ?thesis using L by (simp only: last_split_slash_rooted)
  next
    case False
    then have "path_Clean ?q = join_slash (out @ [e])" by (simp add: path_Clean_def ce)
    then show ?thesis using L by simp
  qed
qed

lemma install_slashfree: "slashfree ''install''" and install_normal: "normal ''install''"
  by (simp_all add: slashfree_def normal_def)

lemma last_Join_install: "last (split_slash (path_Join [n, ''install''])) = ''install''"
proof (cases "n = []")
  case True
  have "path_Clean ''install'' = ''install''"
    by (simp add: path_Clean_def clean_elems_def clean_elem_def)
  with True show ?thesis by (simp add: path_Join_def)
next
  case False
  then have "path_Join [n, ''install''] = path_Clean (n @ CHR ''/'' # ''install'')"
    by (simp add: path_Join_def)
  then show ?thesis using last_Clean_snoc[OF install_slashfree install_normal, of n] by simp
qed

lemma plain_install: "plain ''install''"
  by (simp add: plain_def normal_def)

text \<open>
  Claim C8, as the code has it. \<^verbatim>\<open>PathFor\<close> maps \<^verbatim>\<open>disk\<close> to the join of the root, the OS
  install segment and the partial path, \<^verbatim>\<open>tftp\<close> to the join of the segment and the
  partial path, and \<^verbatim>\<open>http\<close> to the base URL, a slash and that join; any other tag,
  \<^verbatim>\<open>network\<close> among them, is fatal. Where the root is a slash followed by plain
  elements and the segment and the partial path are made of plain elements, the joins
  are the strings root/segment/path and segment/path.
\<close>

theorem PathFor_protocols:
  "PathFor x b ''disk'' f = Inr (path_Join [fileRoot x, install_segment b, f]) \<and>
   PathFor x b ''tftp'' f = Inr (path_Join [install_segment b, f]) \<and>
   PathFor x b ''http'' f = Inr (provisionerURL x @ ''/'' @ path_Join [install_segment b, f]) \<and>
   (proto \<noteq> ''disk'' \<and> proto \<noteq> ''tftp'' \<and> proto \<noteq> ''http'' \<longrightarrow>
      PathFor x b proto f = Inl (Fatal proto)) \<and>
   (fileRoot x = CHR ''/'' # r \<and> plain r \<and> plain (install_segment b) \<and> plain f \<longrightarrow>
      PathFor x b ''disk'' f = Inr (fileRoot x @ ''/'' @ install_segment b @ ''/'' @ f) \<and>
      PathFor x b ''tftp'' f = Inr (install_segment b @ ''/'' @ f) \<and>
      PathFor x b ''http'' f = Inr (provisionerURL x @ ''/'' @ install_segment b @ ''/'' @ f))"
proof -
  have g: "PathFor x b ''disk'' f = Inr (path_Join [fileRoot x, install_segment b, f])"
    "PathFor x b ''tftp'' f = Inr (path_Join [install_segment b, f])"
    "PathFor x b ''http'' f = Inr (provisionerURL x @ ''/'' @ path_Join [install_segment b, f])"
    "proto \<noteq> ''disk'' \<and> proto \<noteq> ''tftp'' \<and> proto \<noteq> ''http'' \<longrightarrow>
      PathFor x b proto f = Inl (Fatal proto)"
    by (simp_all add: PathFor_def install_segment_def Let_def)
  have "path_Join [fileRoot x, install_segment b, f] = fileRoot x @ ''/'' @ install_segment b @ ''/'' @ f"
    and "path_Join [install_segment b, f] = install_segment b @ ''/'' @ f"
    if "fileRoot x = CHR ''/'' # r" "plain r" "plain (install_segment b)" "plain f"
    using that join3_rooted_plain[of r "install_segment b" f] join2_plain[of "install_segment b" f]
    by simp_all
  with g show ?thesis by simp
qed

theorem PathFor_protocols_witness:
  "PathFor ex_ext ex_env_ipxe ''disk'' ''boot/vmlinuz0'' = Inr ''/tftpboot/sledge/install/boot/vmlinuz0'' \<and>
   PathFor ex_ext ex_env_ipxe ''tftp'' ''boot/vmlinuz0'' = Inr ''sledge/install/boot/vmlinuz0'' \<and>
   PathFor ex_ext ex_env_ipxe ''http'' ''boot/vmlinuz0''
     = Inr ''http://10.0.0.1:8091/sledge/install/boot/vmlinuz0'' \<and>
   PathFor ex_ext ex_env_ipxe ''https'' ''boot/vmlinuz0'' = Inl (Fatal ''https'')"
proof -
  have s: "install_segment ex_env_ipxe = ''sledge/install''"
    by (simp add: ex_env_ipxe_def ex_defs install_segment_def path_defs)
  have h: "fileRoot ex_ext = CHR ''/'' # ''tftpboot''" "plain ''tftpboot''"
    "plain (install_segment ex_env_ipxe)" "plain ''boot/vmlinuz0''"
    unfolding s by (simp_all add: ex_defs plain_def normal_def)
  have u: "provisionerURL ex_ext = ''http://10.0.0.1:8091''" by (simp add: ex_defs)
  have n: "''https'' \<noteq> ''disk'' \<and> ''https'' \<noteq> ''tftp'' \<and> ''https'' \<noteq> ''http''" by simp
  note T = PathFor_protocols[of ex_ext ex_env_ipxe "''boot/vmlinuz0''" "''https''" "''tftpboot''"]
  from T h have
    "PathFor ex_ext ex_env_ipxe ''disk'' ''boot/vmlinuz0''
       = Inr (fileRoot ex_ext @ ''/'' @ install_segment ex_env_ipxe @ ''/'' @ ''boot/vmlinuz0'')"
    "PathFor ex_ext ex_env_ipxe ''tftp'' ''boot/vmlinuz0''
       = Inr (install_segment ex_env_ipxe @ ''/'' @ ''boot/vmlinuz0'')"
    "PathFor ex_ext ex_env_ipxe ''http'' ''boot/vmlinuz0''
       = Inr (provisionerURL ex_ext @ ''/'' @ install_segment ex_env_ipxe @ ''/'' @ ''boot/vmlinuz0'')"
    by blast+
  moreover from T n have "PathFor ex_ext ex_env_ipxe ''https'' ''boot/vmlinuz0'' = Inl (Fatal ''https'')"
    by blast
  ultimately show ?thesis by (simp add: s u h(1))
qed

text \<open>The claim as it is written fails: the tag \<^verbatim>\<open>network\<close> is not one that \<^verbatim>\<open>PathFor\<close>
  knows.\<close>

theorem PathFor_protocols_counterexample:
  "PathFor ex_ext ex_env_ipxe ''network'' ''boot/vmlinuz0'' = Inl (Fatal ''network'')"
  by (simp add: PathFor_def Let_def)

text \<open>
  Claim C9. For the OS name \<^verbatim>\<open>discovery\<close> the segment is \<^verbatim>\<open>discovery\<close>, with no element
  \<^verbatim>\<open>install\<close>; for any other OS name it is the join of the name and \<^verbatim>\<open>install\<close>, whose
  last element is \<^verbatim>\<open>install\<close> (the string name/install for a name of plain elements).
  \<^verbatim>\<open>PathFor\<close> uses that segment for each of its three protocols.
\<close>

theorem PathFor_install_segment:
  "(os_Name (be_OS b) = ''discovery'' \<longrightarrow>
      install_segment b = ''discovery'' \<and>
      ''install'' \<notin> set (split_slash (install_segment b)) \<and>
      PathFor x b ''disk'' f = Inr (path_Join [fileRoot x, ''discovery'', f]) \<and>
      PathFor x b ''tftp'' f = Inr (path_Join [''discovery'', f]) \<and>
      PathFor x b ''http'' f = Inr (provisionerURL x @ ''/'' @ path_Join [''discovery'', f])) \<and>
   (os_Name (be_OS b) \<noteq> ''discovery'' \<longrightarrow>
      install_segment b = path_Join [os_Name (be_OS b), ''install''] \<and>
      last (split_slash (install_segment b)) = ''install'' \<and>
      (plain (os_Name (be_OS b)) \<longrightarrow> install_segment b = os_Name (be_OS b) @ ''/install'') \<and>
      PathFor x b ''disk'' f
        = Inr (path_Join [fileRoot x, path_Join [os_Name (be_OS b), ''install''], f]) \<and>
      PathFor x b ''tftp'' f = Inr (path_Join [path_Join [os_Name (be_OS b), ''install''], f]) \<and>
      PathFor x b ''http'' f
        = Inr (provisionerURL x @ ''/'' @ path_Join [path_Join [os_Name (be_OS b), ''install''], f]))"
proof -
  have d: "''install'' \<notin> set (split_slash ''discovery'')" by simp
  have p: "plain n \<Longrightarrow> path_Join [n, ''install''] = n @ ''/install''" for n
    using join2_plain[OF _ plain_install, of n] by simp
  show ?thesis
    using d p[of "os_Name (be_OS b)"] last_Join_install[of "os_Name (be_OS b)"]
    by (simp add: PathFor_def install_segment_def Let_def)
qed

theorem PathFor_install_segment_witness:
  "install_segment ex_env_discovery = ''discovery'' \<and>
   PathFor ex_ext ex_env_discovery ''disk'' ''vmlinuz0'' = Inr ''/tftpboot/discovery/vmlinuz0'' \<and>
   install_segment ex_env_ipxe = ''sledge/install'' \<and>
   PathFor ex_ext ex_env_ipxe ''disk'' ''vmlinuz0'' = Inr ''/tftpboot/sledge/install/vmlinuz0''"
proof -
  have n: "os_Name (be_OS ex_env_discovery) = ''discovery''" "os_Name (be_OS ex_env_ipxe) = ''sledge''"
    "os_Name (be_OS ex_env_ipxe) \<noteq> ''discovery''" "plain ''sledge''" "fileRoot ex_ext = ''/tftpboot''"
    by (simp_all add: ex_env_discovery_def ex_env_ipxe_def ex_defs plain_def normal_def)
  have j: "path_Join [''/tftpboot'', ''discovery'', ''vmlinuz0''] = ''/tftpboot/discovery/vmlinuz0''"
    "path_Join [''sledge'', ''install''] = ''sledge/install''"
    "path_Join [''/tftpboot'', path_Join [''sledge'', ''install''], ''vmlinuz0'']
       = ''/tftpboot/sledge/install/vmlinuz0''"
    by (simp_all add: path_defs)
  from PathFor_install_segment[of ex_env_discovery ex_ext "''vmlinuz0''"]
    PathFor_install_segment[of ex_env_ipxe ex_ext "''vmlinuz0''"] n j
  show ?thesis by simp
qed

subsection \<open>Auxiliary files\<close>

lemma os_Create_file:
  assumes cr: "os_Create F1 p = Inr F2"
  shows "os_Stat F2 p = Inr (File [])"
proof -
  from cr have p: "p \<noteq> []" and c: "create_at F1 (path_prefixes p) = Inr F2"
    by (auto simp: os_Create_def split: if_splits)
  from create_at_ok[OF c] obtain
    ne: "path_prefixes p \<noteq> []" and d: "dirs_on F1 (path_prefixes p)"
    and F2: "F2 = AList.update (last (path_prefixes p)) (File []) F1" by auto
  have k: "last (path_prefixes p) \<notin> set (butlast (path_prefixes p))"
    using last_notin_butlast[OF path_prefixes_distinct ne] .
  have "dirs_on F2 (path_prefixes p)"
    using d k by (auto simp: dirs_on_def F2 update_conv')
  then show ?thesis using p ne by (simp add: os_Stat_def walk_dirs_on F2 update_conv')
qed

lemma validate_file_stat:
  "validate_file x b f w =
     (if os_Stat (fs w) (path_Join [fileRoot x, install_segment b, fd_Name f]) = Inl ENOENT
      then Some (FileMissingError (path_Join [fileRoot x, install_segment b, fd_Name f]))
      else None)"
  by (simp add: validate_file_def PathFor_disk)

lemma fetch_files_skip:
  "validate_file x b f w = None \<Longrightarrow> fetch_files x b (f # rest) w = fetch_files x b rest w"
  by simp

text \<open>
  Claim C10. When \<^verbatim>\<open>get_file\<close> returns the error of \<^verbatim>\<open>http.Get\<close> or of \<^verbatim>\<open>io.Copy\<close>, the
  destination file is there afterwards, a regular file that holds the bytes copied
  before the failure (none when the request itself failed). \<^verbatim>\<open>validate_file\<close> then
  accepts it, and the step of the loop of \<^verbatim>\<open>onChange\<close> for this file does nothing, in
  that world and in any later one where the file is still as it was left: the file is
  not downloaded again.
\<close>

theorem get_file_failure_leaves_file:
  assumes "get_file x b f w = (Some e, w')" and "e = HttpError s \<or> e = CopyError s"
  shows "os_Stat (fs w') (path_Join [fileRoot x, install_segment b, fd_Name f])
           = Inr (File (case http_Get x (fd_URL f) of Inl err \<Rightarrow> [] | Inr (body, cerr) \<Rightarrow> body)) \<and>
         validate_file x b f w' = None \<and>
         fetch_files x b (f # rest) w' = fetch_files x b rest w' \<and>
         (\<forall>v. os_Stat (fs v) (path_Join [fileRoot x, install_segment b, fd_Name f])
                = os_Stat (fs w') (path_Join [fileRoot x, install_segment b, fd_Name f])
              \<longrightarrow> fetch_files x b (f # rest) v = fetch_files x b rest v)"
proof -
  let ?p = "path_Join [fileRoot x, install_segment b, fd_Name f]"
  from assms obtain F1 where mk: "os_MkdirAll (fs w) (path_Dir ?p) = Inr F1"
    by (cases "os_MkdirAll (fs w) (path_Dir ?p)") (auto simp: get_file_def PathFor_disk)
  from assms mk obtain F2 where cr: "os_Create F1 ?p = Inr F2"
    by (cases "os_Create F1 ?p") (auto simp: get_file_def PathFor_disk)
  have st: "os_Stat (fs w') ?p
           = Inr (File (case http_Get x (fd_URL f) of Inl err \<Rightarrow> [] | Inr (body, cerr) \<Rightarrow> body))"
  proof (cases "http_Get x (fd_URL f)")
    case (Inl err)
    with assms mk cr have "fs w' = F2" by (auto simp: get_file_def PathFor_disk Let_def)
    with Inl os_Create_file[OF cr] show ?thesis by simp
  next
    case (Inr r)
    obtain body cerr where r: "r = (body, cerr)" by (cases r)
    with Inr assms mk cr have "fs w' = file_Write F2 ?p body"
      by (auto simp: get_file_def PathFor_disk Let_def)
    with Inr r step_ok_file[OF cr, of body] show ?thesis by simp
  qed
  then have v: "validate_file x b f w' = None" by (simp add: validate_file_stat)
  have "\<forall>v. os_Stat (fs v) ?p = os_Stat (fs w') ?p \<longrightarrow> validate_file x b f v = None"
    using st by (simp add: validate_file_stat)
  with st v show ?thesis by (simp add: fetch_files_skip)
qed

theorem get_file_failure_leaves_file_witness:
  "fst (get_file ex_ext_cut ex_env_ipxe ex_file ex_world) = Some (CopyError ''unexpected EOF'') \<and>
   os_Stat (fs (snd (get_file ex_ext_cut ex_env_ipxe ex_file ex_world)))
      ''/tftpboot/sledge/install/images/stage2.img'' = Inr (File ''half'') \<and>
   validate_file ex_ext_cut ex_env_ipxe ex_file (snd (get_file ex_ext_cut ex_env_ipxe ex_file ex_world))
     = None \<and>
   fetch_files ex_ext_cut ex_env_ipxe [ex_file] (snd (get_file ex_ext_cut ex_env_ipxe ex_file ex_world))
     = (None, snd (get_file ex_ext_cut ex_env_ipxe ex_file ex_world))"
proof -
  let ?g = "get_file ex_ext_cut ex_env_ipxe ex_file ex_world"
  have e: "fst ?g = Some (CopyError ''unexpected EOF'')"
    by (simp add: get_file_def PathFor_def ex_ext_cut_def ex_file_def ex_env_ipxe_def ex_defs
        path_defs os_defs Let_def)
  then have h: "?g = (Some (CopyError ''unexpected EOF''), snd ?g)" by (simp add: prod_eq_iff)
  have p: "path_Join [fileRoot ex_ext_cut, install_segment ex_env_ipxe, fd_Name ex_file]
             = ''/tftpboot/sledge/install/images/stage2.img''"
    by (simp add: ex_ext_cut_def ex_file_def ex_env_ipxe_def ex_defs install_segment_def path_defs)
  have b: "(case http_Get ex_ext_cut (fd_URL ex_file) of Inl err \<Rightarrow> [] | Inr (body, cerr) \<Rightarrow> body) = ''half''"
    by (simp add: ex_ext_cut_def)
  from get_file_failure_leaves_file[OF h disjI2[OF refl], of "[]"] e
  show ?thesis unfolding p b by simp
qed

end
